theory Spec2Isabelle
  imports Main "HOL-Library.AList"
begin

section \<open>Python values the importer relies on\<close>

text \<open>
  Exceptions of the importer are values. The payload keeps what identifies the failure:
  the operator names of \<open>OpNotImplemented\<close>, the version of \<open>NotImplementedError\<close>.
\<close>

datatype py_error =
    IndexError
  | KeyError string
  | TypeError string
  | ValueError string
  | AssertionError string
  | NotImplementedError string
  | OpNotImplemented "string set"
  | AttributeError string
  | OracleError string

text \<open>Sequencing of steps that may raise, and loops over lists.\<close>

definition bind_err :: "'e + 'a \<Rightarrow> ('a \<Rightarrow> 'e + 'b) \<Rightarrow> 'e + 'b" where
  "bind_err m f = (case m of Inl e \<Rightarrow> Inl e | Inr x \<Rightarrow> f x)"

primrec for_each :: "('a \<Rightarrow> 's \<Rightarrow> 'e + 's) \<Rightarrow> 'a list \<Rightarrow> 's \<Rightarrow> 'e + 's" where
  "for_each f [] s = Inr s"
| "for_each f (x # xs) s = (case f x s of Inl e \<Rightarrow> Inl e | Inr s' \<Rightarrow> for_each f xs s')"

primrec map_err :: "('a \<Rightarrow> 'e + 'b) \<Rightarrow> 'a list \<Rightarrow> 'e + 'b list" where
  "map_err f [] = Inr []"
| "map_err f (x # xs) =
     (case f x of Inl e \<Rightarrow> Inl e
      | Inr y \<Rightarrow> (case map_err f xs of Inl e \<Rightarrow> Inl e | Inr ys \<Rightarrow> Inr (y # ys)))"


text \<open>
  \<open>xs[i]\<close> on a Python list: a negative index counts from the end, and an index outside
  \<open>-len .. len - 1\<close> raises \<open>IndexError\<close>.
\<close>

definition list_getitem :: "'a list \<Rightarrow> int \<Rightarrow> py_error + 'a" where
  "list_getitem xs i =
     (if 0 \<le> i \<and> i < int (length xs) then Inr (xs ! nat i)
      else if i < 0 \<and> - int (length xs) \<le> i then Inr (xs ! nat (int (length xs) + i))
      else Inl IndexError)"

text \<open>\<open>max(xs)\<close> of a list of naturals; the empty list raises \<open>ValueError\<close>.\<close>

definition py_max :: "nat list \<Rightarrow> py_error + nat" where
  "py_max xs = (if xs = [] then Inl (ValueError ''max() arg is an empty sequence'')
                else Inr (fold max xs 0))"

text \<open>
  \<open>range(start, stop, step)\<close> as the list of its elements (\<open>step\<close> is not zero).
\<close>

definition range_len :: "int \<Rightarrow> int \<Rightarrow> int \<Rightarrow> nat" where
  "range_len start stop step =
     (if 0 < step \<and> start < stop then nat ((stop - start - 1) div step + 1)
      else if step < 0 \<and> stop < start then nat ((start - stop - 1) div (- step) + 1)
      else 0)"

definition py_range :: "int \<Rightarrow> int \<Rightarrow> int \<Rightarrow> int list" where
  "py_range start stop step =
     map (\<lambda>k. start + int k * step) [0 ..< range_len start stop step]"

text \<open>
  A slice object \<open>slice(start, stop, step)\<close>, each part possibly \<open>None\<close>, and
  \<open>slice.indices(n)\<close>: the concrete \<open>(start, stop, step)\<close> it denotes on a sequence of
  length \<open>n\<close>. A zero step raises \<open>ValueError\<close>.
\<close>

datatype slice = Slice (slice_start: "int option") (slice_stop: "int option")
  (slice_step: "int option")

definition slice_indices :: "slice \<Rightarrow> int \<Rightarrow> py_error + (int \<times> int \<times> int)" where
  "slice_indices sl n =
     (let step = (case slice_step sl of None \<Rightarrow> 1 | Some s \<Rightarrow> s) in
      if step = 0 then Inl (ValueError ''slice step cannot be zero'')
      else
        let lower = (if step < 0 then - 1 else 0);
            upper = (if step < 0 then n - 1 else n);
            start = (case slice_start sl of
                       None \<Rightarrow> (if step < 0 then upper else lower)
                     | Some s \<Rightarrow> (if s < 0 then max (s + n) lower else min s upper));
            stop = (case slice_stop sl of
                      None \<Rightarrow> (if step < 0 then lower else upper)
                    | Some s \<Rightarrow> (if s < 0 then max (s + n) lower else min s upper))
        in Inr (start, stop, step))"

text \<open>\<open>list(range(n)[sl])\<close>: the indices a slice selects from \<open>range(n)\<close>.\<close>

definition range_slice :: "int \<Rightarrow> slice \<Rightarrow> py_error + int list" where
  "range_slice n sl =
     (case slice_indices sl (max n 0) of
        Inl e \<Rightarrow> Inl e
      | Inr (start, stop, step) \<Rightarrow> Inr (py_range start stop step))"

text \<open>\<open>xs[sl]\<close> on an ordinary Python list.\<close>

definition list_slice :: "'a list \<Rightarrow> slice \<Rightarrow> py_error + 'a list" where
  "list_slice xs sl =
     (case range_slice (int (length xs)) sl of
        Inl e \<Rightarrow> Inl e
      | Inr idx \<Rightarrow> Inr (map (\<lambda>i. xs ! nat i) idx))"

section \<open>The node-input list: \<open>onnx_input\<close>\<close>

text \<open>
  \<open>onnx_input\<close> extends \<open>list\<close>; its elements are IR values or Python's \<open>None\<close>
  (an omitted optional input), so the list is an \<open>'a option list\<close>. The key of
  \<open>__getitem__\<close> is an \<open>int\<close>, a \<open>slice\<close> or a value of another type (named by its
  type). The result is one element or, for a slice, a list.
\<close>

datatype key = KInt int | KSlice slice | KOther string

datatype 'a item = Single "'a option" | Many "'a option list"

definition getitem_int :: "'a option list \<Rightarrow> int \<Rightarrow> py_error + 'a option" where
  "getitem_int self i =
     (if i < int (length self) then list_getitem self i else Inr None)"

definition getitem_slice :: "'a option list \<Rightarrow> slice \<Rightarrow> py_error + 'a option list" where
  "getitem_slice self sl =
     (let stop = (case slice_stop sl of None \<Rightarrow> int (length self) | Some s \<Rightarrow> s) in
      bind_err (range_slice stop sl) (\<lambda>indices. map_err (getitem_int self) indices))"

definition getitem :: "'a option list \<Rightarrow> key \<Rightarrow> py_error + 'a item" where
  "getitem self k =
     (case k of
        KSlice sl \<Rightarrow> bind_err (getitem_slice self sl) (\<lambda>vs. Inr (Many vs))
      | KInt i \<Rightarrow> bind_err (getitem_int self i) (\<lambda>v. Inr (Single v))
      | KOther ty \<Rightarrow>
          Inl (TypeError (''list indices must be integers or slices, not '' @ ty)))"

section \<open>The versioned operator registry: \<open>OnnxOpConverter.get_converter\<close>\<close>

text \<open>
  A converter class is the table of its \<open>_impl_v<n>\<close> attributes: the version \<open>n\<close> with
  the method. \<open>get_converter\<close> sorts the versions together with the requested opset,
  takes the entry before the last occurrence of the opset, and returns the method of
  that version if the class has one.
\<close>

type_synonym 'c op_class = "(int \<times> 'c) list"

definition get_converter :: "'c op_class \<Rightarrow> int \<Rightarrow> py_error + 'c" where
  "get_converter cls opset =
     (let versions = sort (map fst cls @ [opset]) in
      case py_max [i \<leftarrow> [0 ..< length versions]. versions ! i = opset] of
        Inl e \<Rightarrow> Inl e
      | Inr m \<Rightarrow>
          (case list_getitem versions (int m - 1) of
             Inl e \<Rightarrow> Inl e
           | Inr version \<Rightarrow>
               (case map_of cls version of
                  Some impl \<Rightarrow> Inr impl
                | None \<Rightarrow> Inl (NotImplementedError ''opset version not implemented''))))"

section \<open>Declared outputs of a node: \<open>GraphProto._fix_outputs\<close>\<close>

definition fix_outputs :: "string \<Rightarrow> string list \<Rightarrow> string list" where
  "fix_outputs op_name outputs =
     (if op_name = ''Dropout''
      then (if length outputs = 1 then outputs else butlast outputs)
      else outputs)"

section \<open>Python dictionaries\<close>

text \<open>
  A \<open>dict\<close> keeps its keys in insertion order: assigning to a key that is present
  replaces the value in place, a new key goes to the end, \<open>pop\<close> removes the key and
  \<open>update\<close> assigns the entries of the other dictionary in its order.
\<close>

type_synonym ('k, 'v) dict = "('k \<times> 'v) list"

definition dict_get :: "('k, 'v) dict \<Rightarrow> 'k \<Rightarrow> 'v option" where
  "dict_get d k = map_of d k"

definition dict_set :: "('k, 'v) dict \<Rightarrow> 'k \<Rightarrow> 'v \<Rightarrow> ('k, 'v) dict" where
  "dict_set d k v = AList.update k v d"

definition dict_pop :: "('k, 'v) dict \<Rightarrow> 'k \<Rightarrow> ('k, 'v) dict" where
  "dict_pop d k = AList.delete k d"

definition dict_update :: "('k, 'v) dict \<Rightarrow> ('k, 'v) dict \<Rightarrow> ('k, 'v) dict" where
  "dict_update d other = fold (\<lambda>(k, v) acc. dict_set acc k v) other d"

definition dict_item :: "(string, 'v) dict \<Rightarrow> string \<Rightarrow> py_error + 'v" where
  "dict_item d k = (case dict_get d k of None \<Rightarrow> Inl (KeyError k) | Some v \<Rightarrow> Inr v)"

section \<open>The functional IR\<close>

datatype dim = Dim int | Any

datatype ty = TensorType (ty_shape: "dim list") (ty_dtype: "string option")

datatype ndarray = NDArray (nd_shape: "int list") (nd_dtype: string) (nd_data: "int list")

text \<open>
  Expressions of the IR. A variable carries its name hint, its type annotation (if any) and the
  identity of the object (two variables made by two calls of \<open>var\<close> differ even under
  one name). \<open>PyNone\<close> stands where the importer hands Python's \<open>None\<close> to a
  constructor of the IR.
\<close>

datatype expr =
    Var (name_hint: string) "ty option" nat
  | Constant ndarray
  | Op string
  | Call expr "expr list" "(string \<times> int list) list"
  | Tuple "expr list"
  | TupleGetItem expr nat
  | If expr expr expr
  | Function "expr list" expr
  | Let expr expr expr
  | PyNone

definition of_opt :: "expr option \<Rightarrow> expr" where
  "of_opt v = (case v of None \<Rightarrow> PyNone | Some e \<Rightarrow> e)"

text \<open>
  \<open>analysis.free_vars\<close>: the variables an expression uses, in the order the
  traversal first meets them, without those some binder of the expression binds
  (function parameters and let variables).
\<close>

fun used_vars :: "expr \<Rightarrow> expr list" where
  "used_vars (Var n t i) = [Var n t i]"
| "used_vars (Constant c) = []"
| "used_vars (Op n) = []"
| "used_vars (Call f args attrs) = used_vars f @ concat (map used_vars args)"
| "used_vars (Tuple fs) = concat (map used_vars fs)"
| "used_vars (TupleGetItem t i) = used_vars t"
| "used_vars (If c t e) = used_vars c @ used_vars t @ used_vars e"
| "used_vars (Function ps b) = used_vars b"
| "used_vars (Let v e b) = used_vars e @ used_vars b"
| "used_vars PyNone = []"

fun bound_vars :: "expr \<Rightarrow> expr list" where
  "bound_vars (Var n t i) = []"
| "bound_vars (Constant c) = []"
| "bound_vars (Op n) = []"
| "bound_vars (Call f args attrs) = bound_vars f @ concat (map bound_vars args)"
| "bound_vars (Tuple fs) = concat (map bound_vars fs)"
| "bound_vars (TupleGetItem t i) = bound_vars t"
| "bound_vars (If c t e) = bound_vars c @ bound_vars t @ bound_vars e"
| "bound_vars (Function ps b) = ps @ bound_vars b"
| "bound_vars (Let v e b) = v # bound_vars e @ bound_vars b"
| "bound_vars PyNone = []"

primrec uniq :: "'a list \<Rightarrow> 'a list \<Rightarrow> 'a list" where
  "uniq seen [] = []"
| "uniq seen (x # xs) = (if x \<in> set seen then uniq seen xs else x # uniq (x # seen) xs)"

definition free_vars :: "expr \<Rightarrow> expr list" where
  "free_vars e = filter (\<lambda>v. v \<notin> set (bound_vars e)) (uniq [] (used_vars e))"

text \<open>
  What a converter returns: one expression, or a \<open>TupleWrapper\<close> of a tuple-valued
  expression with the number of its outputs. \<open>wrapper[i]\<close> is the projection, with
  the wrapper's own range check.
\<close>

datatype op_result = Expr expr | TupleWrapper expr nat

definition tw_getitem :: "expr \<Rightarrow> nat \<Rightarrow> nat \<Rightarrow> py_error + expr" where
  "tw_getitem tuple_value sz i =
     (if sz \<le> i then Inl IndexError else Inr (TupleGetItem tuple_value i))"

section \<open>The serialized graph\<close>

datatype py_float = PyFloat int int

datatype tensor_proto = TensorProto (tp_name: string) (tp_dims: "int list")
  (tp_data_type: int) (tp_raw_data: "int list")

text \<open>A \<open>ValueInfoProto\<close>: the name, the dimensions (\<open>dim_param\<close>, \<open>dim_value\<close>)
  and the element type code (0 when not set).\<close>

datatype value_info = ValueInfo (vi_name: string) (vi_dim: "(string \<times> int) list")
  (vi_elem_type: int)

datatype onnx_attribute =
  AttributeProto (a_name: string) (a_f: "py_float option") (a_i: "int option")
    (a_s: "string option") (a_g: "onnx_graph option") (a_floats: "py_float list")
    (a_ints: "int list") (a_strings: "string list") (a_t: "tensor_proto option")
    (a_tensors: "tensor_proto list") (a_graphs: "onnx_graph list")
and onnx_node =
  NodeProto (n_op_type: string) (n_input: "string list") (n_output: "string list")
    (n_attribute: "onnx_attribute list") (n_name: string)
and onnx_graph =
  Graph (g_node: "onnx_node list") (g_initializer: "tensor_proto list")
    (g_input: "value_info list") (g_output: "value_info list")

text \<open>The values of the parsed attribute dictionary; \<open>ACustom\<close> is the entry
  \<open>tvm_custom\<close> the importer adds (the node's name and its number of outputs).\<close>

datatype attr_value =
    AFloat py_float | AInt int | ABytes string | AGraph onnx_graph | ATensor tensor_proto
  | AFloats "py_float list" | AInts "int list" | AStrings "string list"
  | ATensors "tensor_proto list" | ACustom string nat

type_synonym attrs = "(string, attr_value) dict"

definition set_field :: "string \<Rightarrow> 'f option \<Rightarrow> ('f \<Rightarrow> attr_value) \<Rightarrow> attrs \<Rightarrow> attrs" where
  "set_field name field mk d = (case field of None \<Rightarrow> d | Some v \<Rightarrow> dict_set d name (mk v))"

definition set_repeated ::
  "string \<Rightarrow> 'f list \<Rightarrow> ('f list \<Rightarrow> attr_value) \<Rightarrow> attrs \<Rightarrow> py_error + attrs" where
  "set_repeated name field mk d =
     (if field = [] then Inr d
      else if dict_get d name \<noteq> None then Inl (AssertionError ''Only one type of attr is allowed'')
      else Inr (dict_set d name (mk field)))"

definition parse_attr_one :: "onnx_attribute \<Rightarrow> attrs \<Rightarrow> py_error + attrs" where
  "parse_attr_one a d0 =
     (let name = a_name a;
          d1 = set_field name (a_g a) AGraph
                 (set_field name (a_s a) ABytes
                   (set_field name (a_i a) AInt (set_field name (a_f a) AFloat d0)))
      in bind_err (set_repeated name (a_floats a) AFloats d1) (\<lambda>d2.
         bind_err (set_repeated name (a_ints a) AInts d2) (\<lambda>d3.
         bind_err (set_repeated name (a_strings a) AStrings d3) (\<lambda>d4.
         let d5 = set_field name (a_t a) ATensor d4 in
         bind_err (set_repeated name (a_tensors a) ATensors d5) (\<lambda>d6.
         if a_graphs a \<noteq> [] then Inl (NotImplementedError ''Field graphs is not supported in relay.'')
         else if dict_get d6 name = None then Inl (ValueError ''Cannot parse attribute'')
         else Inr d6)))))"

definition parse_attr :: "onnx_attribute list \<Rightarrow> py_error + attrs" where
  "parse_attr attr_proto = for_each parse_attr_one attr_proto []"

section \<open>The conversion scope: class \<open>GraphProto\<close>\<close>

datatype dtype_spec = DtypeStr string | DtypeDict "(string, string) dict"

text \<open>
  The fields of a \<open>GraphProto\<close> object (the source names them with a leading
  underscore). \<open>gp_old_manager_is_None\<close> records what \<open>__enter__\<close> saved: whether no
  scope was current when this one was entered.
\<close>

record graph_proto =
  gp_nodes :: "(string, expr) dict"
  gp_params :: "(string, ndarray) dict"
  gp_inputs :: "(string, expr) dict"
  gp_renames :: "(string, string) dict"
  gp_num_input :: nat
  gp_num_param :: nat
  gp_shape :: "(string, dim list) dict"
  gp_input_names :: "string list"
  gp_dtype :: dtype_spec
  gp_opset :: "int option"
  gp_freeze_params :: bool
  gp_old_manager_is_None :: bool

definition GraphProto_init ::
  "(string, dim list) dict \<Rightarrow> dtype_spec \<Rightarrow> bool \<Rightarrow> graph_proto" where
  "GraphProto_init shp dt freeze =
     \<lparr> gp_nodes = [], gp_params = [], gp_inputs = [], gp_renames = [],
       gp_num_input = 0, gp_num_param = 0, gp_shape = shp, gp_input_names = [],
       gp_dtype = dt, gp_opset = None, gp_freeze_params = freeze,
       gp_old_manager_is_None = True \<rparr>"

text \<open>\<open>with scope:\<close>, entered while a scope is current or not.\<close>

definition enter :: "bool \<Rightarrow> graph_proto \<Rightarrow> graph_proto" where
  "enter current_is_None self = self\<lparr> gp_old_manager_is_None := current_is_None \<rparr>"

section \<open>Converters and the environment of the importer\<close>

text \<open>
  A converter of the table is an ordinary one, a function of the inputs, the
  attributes and the constant table, or one of the two control-flow converters, which
  reach the current scope. The operator-specific converters, the registry table itself,
  constant folding, type and shape inference and the decoding of tensors are not part
  of the importer's core: they are the fields of \<open>env\<close>.
\<close>

datatype converter =
    Plain "expr option list \<Rightarrow> attrs \<Rightarrow> (string, ndarray) dict \<Rightarrow> py_error + op_result"
  | Loop_impl_v11
  | If_impl_v1

datatype registry_entry = Fixed converter | Versioned "converter op_class"

record env =
  registry :: "(string, registry_entry) dict"
  get_numpy :: "tensor_proto \<Rightarrow> py_error + ndarray"
  get_type :: "int \<Rightarrow> py_error + string"
  fold_constant :: "expr \<Rightarrow> expr"
  infer_type :: "expr \<Rightarrow> py_error + ty"
  infer_shape :: "expr \<Rightarrow> py_error + dim list"

definition identity_list :: "string list" where
  "identity_list = []"

text \<open>\<open>_get_convert_map(opset)\<close> resolves every versioned entry of the table.\<close>

definition get_convert_map :: "env \<Rightarrow> int \<Rightarrow> py_error + (string, converter) dict" where
  "get_convert_map env opset =
     map_err (\<lambda>(name, entry).
         case entry of
           Fixed c \<Rightarrow> Inr (name, c)
         | Versioned cls \<Rightarrow> bind_err (get_converter cls opset) (\<lambda>c. Inr (name, c)))
       (registry env)"

section \<open>Registering initializers and declared inputs\<close>

text \<open>The characters \<open>str.strip()\<close> removes, among the codes below 256.\<close>

definition is_space :: "char \<Rightarrow> bool" where
  "is_space c = (of_char c \<in> set [9, 10, 11, 12, 13, 28, 29, 30, 31, 32, 133, 160 :: nat])"

text \<open>\<open>not name.strip()\<close>: the name is empty or all whitespace.\<close>

definition blank :: "string \<Rightarrow> bool" where
  "blank name = list_all is_space name"

definition new_var :: "string \<Rightarrow> dim list \<Rightarrow> string option \<Rightarrow> nat \<Rightarrow> expr \<times> nat" where
  "new_var name shp dt ctr = (Var name (Some (TensorType shp dt)) ctr, Suc ctr)"

text \<open>
  \<open>ndarray.reshape\<close>: the new shape must hold as many elements as the array has; one
  dimension may be \<open>-1\<close> and is then inferred from the others.
\<close>

definition reshape :: "ndarray \<Rightarrow> int list \<Rightarrow> py_error + ndarray" where
  "reshape a dims =
     (let n = int (length (nd_data a));
          known = prod_list (filter (\<lambda>d. d \<noteq> - 1) dims)
      in if list_ex (\<lambda>d. d < - 1) dims
         then Inl (ValueError ''negative dimensions not allowed'')
         else if 1 < length (filter (\<lambda>d. d = - 1) dims)
         then Inl (ValueError ''can only specify one unknown dimension'')
         else if length (filter (\<lambda>d. d = - 1) dims) = 1
         then (if known \<noteq> 0 \<and> n mod known = 0
               then Inr (NDArray (map (\<lambda>d. if d = - 1 then n div known else d) dims)
                           (nd_dtype a) (nd_data a))
               else Inl (ValueError ''cannot reshape array''))
         else (if known = n then Inr (NDArray dims (nd_dtype a) (nd_data a))
               else Inl (ValueError ''cannot reshape array'')))"

text \<open>\<open>_parse_array\<close>: the decoded tensor, reshaped to the dimensions of the proto.\<close>

definition parse_array :: "env \<Rightarrow> tensor_proto \<Rightarrow> py_error + ndarray" where
  "parse_array env t = bind_err (get_numpy env t) (\<lambda>a. reshape a (tp_dims t))"

definition load_initializer ::
  "env \<Rightarrow> tensor_proto \<Rightarrow> nat \<times> graph_proto \<Rightarrow> py_error + nat \<times> graph_proto" where
  "load_initializer env init_tensor st =
     (case st of (ctr, self) \<Rightarrow>
      if blank (tp_name init_tensor) then Inl (ValueError ''Tensor's name is required.'')
      else
        bind_err (parse_array env init_tensor) (\<lambda>array.
        if gp_freeze_params self
        then Inr (ctr, self\<lparr> gp_nodes := dict_set (gp_nodes self) (tp_name init_tensor)
                                        (Constant array) \<rparr>)
        else
          (case new_var (tp_name init_tensor) (map Dim (nd_shape array))
                  (Some (nd_dtype array)) ctr of
             (v, ctr') \<Rightarrow>
               Inr (ctr', self\<lparr> gp_params := dict_set (gp_params self) (tp_name init_tensor) array,
                                 gp_nodes := dict_set (gp_nodes self) (tp_name init_tensor) v \<rparr>))))"

text \<open>\<open>get_info\<close>: name, shape and element type of a declared input or output. A
  dimension without a value is dynamic. (The dimension names only feed a warning.)\<close>

definition get_info :: "env \<Rightarrow> value_info \<Rightarrow> py_error + (string \<times> dim list \<times> string option)" where
  "get_info env info_proto =
     (let shp = map (\<lambda>(name, value). if value = 0 then Any else Dim value) (vi_dim info_proto)
      in if vi_elem_type info_proto \<noteq> 0
         then bind_err (get_type env (vi_elem_type info_proto))
                (\<lambda>dt. Inr (vi_name info_proto, shp, Some dt))
         else Inr (vi_name info_proto, shp, None))"

definition load_input ::
  "env \<Rightarrow> value_info \<Rightarrow> nat \<times> graph_proto \<Rightarrow> py_error + nat \<times> graph_proto" where
  "load_input env i st =
     (case st of (ctr, self) \<Rightarrow>
      bind_err (get_info env i) (\<lambda>(i_name, i_shape, d_type).
        case dict_get (gp_params self) i_name of
          Some array \<Rightarrow>
            (case new_var i_name (map Dim (nd_shape array)) (Some (nd_dtype array)) ctr of
               (v, ctr') \<Rightarrow>
                 Inr (ctr', self\<lparr> gp_num_param := gp_num_param self + 1,
                                   gp_params := dict_set (dict_pop (gp_params self) i_name) i_name array,
                                   gp_nodes := dict_set (gp_nodes self) i_name v,
                                   gp_inputs := dict_set (gp_inputs self) i_name v \<rparr>))
        | None \<Rightarrow>
            if dict_get (gp_nodes self) i_name \<noteq> None then Inr (ctr, self)
            else
              let shp = (case dict_get (gp_shape self) i_name of Some s \<Rightarrow> s | None \<Rightarrow> i_shape);
                  dt = (case gp_dtype self of
                          DtypeDict d \<Rightarrow> (case dict_get d i_name of Some t \<Rightarrow> Some t | None \<Rightarrow> d_type)
                        | DtypeStr s \<Rightarrow> d_type)
              in (case new_var i_name shp dt ctr of
                    (v, ctr') \<Rightarrow>
                      Inr (ctr', self\<lparr> gp_num_input := gp_num_input self + 1,
                                        gp_input_names := gp_input_names self @ [i_name],
                                        gp_nodes := dict_set (gp_nodes self) i_name v,
                                        gp_inputs := dict_set (gp_inputs self) i_name v \<rparr>))))"

text \<open>The check of the user's shapes, made in the outermost scope only.\<close>

definition check_shapes :: "graph_proto \<Rightarrow> py_error + unit" where
  "check_shapes self =
     (if gp_old_manager_is_None self
         \<and> \<not> list_all (\<lambda>name. name \<in> set (gp_input_names self)) (map fst (gp_shape self))
      then Inl (AssertionError ''User specified the shape for inputs that weren't found in the graph'')
      else Inr ())"

section \<open>The scan for unsupported operators\<close>

definition unsupported_ops :: "(string, converter) dict \<Rightarrow> onnx_node list \<Rightarrow> string list" where
  "unsupported_ops convert_map ns =
     filter (\<lambda>op_name. dict_get convert_map op_name = None \<and> op_name \<noteq> ''Constant''
                        \<and> op_name \<notin> set identity_list)
       (map n_op_type ns)"

definition check_unsupported :: "(string, converter) dict \<Rightarrow> onnx_node list \<Rightarrow> py_error + unit" where
  "check_unsupported convert_map ns =
     (if unsupported_ops convert_map ns \<noteq> []
      then Inl (OpNotImplemented (set (unsupported_ops convert_map ns)))
      else Inr ())"

section \<open>One node: inputs, output reconciliation, binding\<close>

definition node_inputs :: "graph_proto \<Rightarrow> string list \<Rightarrow> py_error + expr option list" where
  "node_inputs self names =
     map_err (\<lambda>i. if i \<noteq> []
                   then bind_err (dict_item (gp_nodes self)
                                    (case dict_get (gp_renames self) i of Some r \<Rightarrow> r | None \<Rightarrow> i))
                          (\<lambda>e. Inr (Some e))
                   else Inr None)
       names"

text \<open>The number of outputs of the converted operator, and constant folding. Folding
  an object that is not an expression (a wrapper of one output) is refused by the IR
  library.\<close>

definition outputs_num_of :: "op_result \<Rightarrow> nat" where
  "outputs_num_of op = (case op of Expr e \<Rightarrow> 1 | TupleWrapper t n \<Rightarrow> n)"

definition fold_op :: "env \<Rightarrow> op_result \<Rightarrow> py_error + op_result" where
  "fold_op env op =
     (if outputs_num_of op = 1
      then (case op of
              Expr e \<Rightarrow> Inr (Expr (fold_constant env e))
            | TupleWrapper t n \<Rightarrow> Inl (TypeError ''TupleWrapper is not an expression''))
      else (case op of
              Expr e \<Rightarrow> Inr (Expr e)
            | TupleWrapper t n \<Rightarrow> Inr (TupleWrapper (fold_constant env t) n)))"

definition mark_valid :: "nat \<times> string \<Rightarrow> bool list \<Rightarrow> py_error + bool list" where
  "mark_valid io valid_outputs =
     (case io of (i, output) \<Rightarrow>
        if output \<noteq> []
        then (if i < length valid_outputs then Inr (valid_outputs[i := True]) else Inl IndexError)
        else Inr valid_outputs)"

definition op_getitem :: "op_result \<Rightarrow> nat \<Rightarrow> py_error + expr" where
  "op_getitem op i =
     (case op of
        TupleWrapper t n \<Rightarrow> tw_getitem t n i
      | Expr e \<Rightarrow> Inl (TypeError ''expression is not subscriptable''))"

definition astuple :: "op_result \<Rightarrow> expr" where
  "astuple op = (case op of TupleWrapper t n \<Rightarrow> t | Expr e \<Rightarrow> e)"

text \<open>
  The block of \<open>from_onnx\<close> that drops outputs the graph does not expect (it runs when
  the operator produced more than one output) and the assertion after it. The result is
  the operator, the number of its outputs and the output names that remain.
\<close>

definition reconcile ::
  "op_result \<Rightarrow> string list \<Rightarrow> py_error + (op_result \<times> nat \<times> string list)" where
  "reconcile op node_output =
     (let outputs_num = outputs_num_of op in
      bind_err
        (if 1 < outputs_num
         then
           bind_err (for_each mark_valid (enumerate 0 node_output) (replicate outputs_num False))
             (\<lambda>valid_outputs.
                if \<not> list_all id valid_outputs
                then
                  let kept = filter (\<lambda>i. valid_outputs ! i) [0 ..< length valid_outputs] in
                  bind_err
                    (case astuple op of
                       Tuple fs \<Rightarrow> map_err (\<lambda>i. list_getitem fs (int i)) kept
                     | _ \<Rightarrow> map_err (op_getitem op) kept)
                    (\<lambda>outputs.
                       let op' = (if length outputs = 1 then Expr (hd outputs)
                                  else if length outputs \<noteq> outputs_num
                                  then TupleWrapper (Tuple outputs) (length outputs)
                                  else op)
                       in Inr (op', length outputs, filter (\<lambda>output. output \<noteq> []) node_output))
                else Inr (op, outputs_num, node_output))
         else Inr (op, outputs_num, node_output))
        (\<lambda>(op', outputs_num', node_output').
           if length node_output' = outputs_num' then Inr (op', outputs_num', node_output')
           else Inl (AssertionError ''Number of output mismatch'')))"

text \<open>
  The outputs an operator result stands for, by position: the fields of the tuple it wraps
  (\<open>tup.fields[i]\<close>), the projections \<open>op[i]\<close> of any other wrapped expression, or
  the expression itself.
\<close>

definition produced :: "op_result \<Rightarrow> expr list" where
  "produced op =
     (case op of
        Expr e \<Rightarrow> [e]
      | TupleWrapper t k \<Rightarrow>
          (case t of Tuple fs \<Rightarrow> take k fs | _ \<Rightarrow> map (TupleGetItem t) [0 ..< k]))"

text \<open>Binding the outputs of the node in the scope's table.\<close>

definition bind_outputs ::
  "(string, expr) dict \<Rightarrow> op_result \<Rightarrow> nat \<Rightarrow> string list \<Rightarrow> py_error + (string, expr) dict" where
  "bind_outputs nds op outputs_num node_output =
     (if outputs_num = 1
      then (case op of
              Expr e \<Rightarrow> bind_err (list_getitem node_output 0) (\<lambda>k. Inr (dict_set nds k e))
            | TupleWrapper t n \<Rightarrow> Inl (TypeError ''TupleWrapper is not an expression''))
      else for_each (\<lambda>(k, i) d. bind_err (op_getitem op i) (\<lambda>e. Inr (dict_set d k e)))
             (zip node_output [0 ..< length node_output]) nds)"

section \<open>Assembling the function\<close>

text \<open>\<open>nodes = {v: k for k, v in self._nodes.items()}\<close> and \<open>nodes[var]\<close>: the last
  name of the table bound to the variable.\<close>

definition name_of_var :: "(string, expr) dict \<Rightarrow> expr \<Rightarrow> py_error + string" where
  "name_of_var nds var =
     (case filter (\<lambda>(k, v). v = var) nds of
        [] \<Rightarrow> Inl (KeyError (case var of Var n t i \<Rightarrow> n | _ \<Rightarrow> []))
      | kvs \<Rightarrow> Inr (fst (last kvs)))"

datatype ir_module = IRModule expr

datatype import_result = OutputExpr expr | Module ir_module "(string, ndarray) dict"

definition graph_outputs :: "graph_proto \<Rightarrow> value_info list \<Rightarrow> py_error + expr" where
  "graph_outputs self outs =
     bind_err (map_err (\<lambda>i. dict_item (gp_nodes self) (vi_name i)) outs)
       (\<lambda>outputs. Inr (if length outputs = 1 then hd outputs else Tuple outputs))"

definition assemble :: "graph_proto \<Rightarrow> expr \<Rightarrow> py_error + (import_result \<times> graph_proto)" where
  "assemble self outputs =
     bind_err (map_err (name_of_var (gp_nodes self)) (free_vars outputs))
       (\<lambda>free_names.
          bind_err
            (for_each (\<lambda>i_name inps.
                 if i_name \<in> set free_names \<and> dict_get inps i_name = None
                 then bind_err (dict_item (gp_nodes self) i_name) (\<lambda>v. Inr (dict_set inps i_name v))
                 else Inr inps)
               (map fst (gp_params self)) (gp_inputs self))
            (\<lambda>inps.
               let func = Function (map snd inps) outputs
               in Inr (Module (IRModule func) (gp_params self), self\<lparr> gp_inputs := inps \<rparr>)))"

section \<open>Control flow: the parts of the Loop and If converters\<close>

definition const_scalar :: "int \<Rightarrow> string option \<Rightarrow> expr" where
  "const_scalar v dt = Constant (NDArray [] (case dt of None \<Rightarrow> [] | Some d \<Rightarrow> d) [v])"

text \<open>
  \<open>cond_fn\<close> of the Loop converter: the test of the loop, from the loop's state
  \<open>[iter_count, max_count, condition, ...]\<close>. \<open>max_loop_count\<close> and \<open>cond\<close> are the
  first two inputs of the node, \<open>None\<close> when omitted.
\<close>

definition cond_fn :: "expr option \<Rightarrow> expr option \<Rightarrow> expr list \<Rightarrow> py_error + expr" where
  "cond_fn max_loop_count cond loop_inputs =
     bind_err (list_getitem loop_inputs 0) (\<lambda>i.
     bind_err (list_getitem loop_inputs 1) (\<lambda>max_count.
     bind_err (list_getitem loop_inputs 2) (\<lambda>w.
       let is_for_loop = (max_loop_count \<noteq> None \<and> cond = None);
           is_condition_for_loop = (cond \<noteq> None \<and> max_loop_count \<noteq> None);
           out_while = Call (Op ''equal'') [w, const_scalar 1 (Some ''bool'')] [];
           out_loop = Call (Op ''less'') [i, max_count] []
       in if is_condition_for_loop then Inr (Call (Op ''logical_and'') [out_while, out_loop] [])
          else if is_for_loop then Inr out_loop
          else Inr out_while)))"

text \<open>\<open>get_var\<close>: a variable for a value updated in the loop, typed as the value.\<close>

definition get_var ::
  "env \<Rightarrow> string \<Rightarrow> expr option \<Rightarrow> bool \<Rightarrow> nat \<Rightarrow> py_error + (expr \<times> nat)" where
  "get_var env name val scan ctr =
     bind_err (infer_type env (of_opt val)) (\<lambda>inferred.
     bind_err (case val of
                 Some (Var n (Some t) i) \<Rightarrow> Inr t
               | Some (Var n None i) \<Rightarrow> Inl (AttributeError ''shape'')
               | _ \<Rightarrow> Inr inferred) (\<lambda>checked_type.
       let actual_shape = map (\<lambda>d. if d = Dim 0 then Any else d) (ty_shape checked_type)
       in Inr (new_var name (if scan then Any # actual_shape else actual_shape)
                 (ty_dtype checked_type) ctr)))"

definition make_loop_vars ::
  "env \<Rightarrow> onnx_graph \<Rightarrow> string option \<Rightarrow> expr option \<Rightarrow> expr option list \<Rightarrow> nat
     \<Rightarrow> py_error + (expr list \<times> nat)" where
  "make_loop_vars env body iter_dtype cond loop_deps ctr =
     bind_err (list_getitem (g_input body) 0) (\<lambda>in0.
       case new_var (vi_name in0) [] iter_dtype ctr of (v0, c1) \<Rightarrow>
       case new_var ''max_count'' [] iter_dtype c1 of (v1, c2) \<Rightarrow>
       bind_err (list_getitem (g_input body) 1) (\<lambda>in1.
       bind_err (get_var env (vi_name in1) cond False c2) (\<lambda>(v2, c3).
       bind_err
         (for_each (\<lambda>(i, v) (vars, c).
              bind_err (list_getitem (g_input body) (int i + 2)) (\<lambda>inp.
              bind_err (get_var env (vi_name inp) v False c) (\<lambda>(x, c').
                Inr (vars @ [x], c'))))
            (enumerate 0 loop_deps) ([], c3))
         (\<lambda>(dep_vars, c4). Inr ([v0, v1, v2] @ dep_vars, c4)))))"

text \<open>The variables and the empty initial tensors of the scan outputs, from the types
  of the outputs of a first import of the body.\<close>

definition scan_output_step ::
  "env \<Rightarrow> onnx_graph \<Rightarrow> nat \<Rightarrow> expr \<Rightarrow> nat \<Rightarrow> expr list \<times> expr list \<times> nat
     \<Rightarrow> py_error + (expr list \<times> expr list \<times> nat)" where
  "scan_output_step env body num_deps loop_outputs i st =
     (case st of (scan_output_vars, scan_output_init, ctr) \<Rightarrow>
      bind_err (list_getitem (g_output body) (int (i + 1 + num_deps))) (\<lambda>out.
      bind_err (get_info env out) (\<lambda>(name, shp0, dt0).
      bind_err (tw_getitem loop_outputs (length (g_output body)) (i + 1 + num_deps)) (\<lambda>item.
      bind_err (infer_type env item) (\<lambda>output_node.
        case new_var name (replicate (length (ty_shape output_node) + 1) Any)
               (ty_dtype output_node) ctr of
          (v, ctr') \<Rightarrow>
            Inr (scan_output_vars @ [v],
                 scan_output_init @
                   [Call (Op ''reshape'')
                      [Constant (NDArray [0] (case ty_dtype output_node of None \<Rightarrow> [] | Some d \<Rightarrow> d) [])]
                      [(''newshape'', 0 # replicate (length (ty_shape output_node)) 1)]],
                 ctr'))))))"

text \<open>\<open>expr[i]\<close> and \<open>len(expr)\<close> on an expression of the IR: a tuple has fields.\<close>

definition expr_getitem :: "expr \<Rightarrow> nat \<Rightarrow> py_error + expr" where
  "expr_getitem e i =
     (case e of
        Tuple fs \<Rightarrow> (if length fs \<le> i then Inl IndexError else Inr (fs ! i))
      | _ \<Rightarrow> Inl (TypeError ''expression is not subscriptable''))"

definition expr_len :: "expr \<Rightarrow> py_error + nat" where
  "expr_len e = (case e of Tuple fs \<Rightarrow> Inr (length fs) | _ \<Rightarrow> Inl (TypeError ''expression has no len()''))"

text \<open>\<open>body_fn\<close>, before the import of the body: the loop's variables are bound in the
  scope of the body under the names of the body's inputs.\<close>

definition body_bind ::
  "graph_proto \<Rightarrow> string list \<Rightarrow> expr list \<Rightarrow> nat \<Rightarrow> py_error + graph_proto" where
  "body_bind subgraph_scope loop_var_names loop_inputs num_deps =
     bind_err
       (for_each (\<lambda>(i, inp) nds.
            bind_err (list_getitem loop_var_names (int i)) (\<lambda>name. Inr (dict_set nds name inp)))
          (enumerate 0 (take (3 + num_deps) loop_inputs)) (gp_nodes subgraph_scope))
       (\<lambda>nds. Inr (subgraph_scope\<lparr> gp_nodes := nds \<rparr>))"

text \<open>\<open>body_fn\<close>, after the import of the body: the state of the next iteration.\<close>

definition combine_scan ::
  "env \<Rightarrow> string option \<Rightarrow> expr \<Rightarrow> expr list \<Rightarrow> nat \<times> expr \<Rightarrow> expr list
     \<Rightarrow> py_error + expr list" where
  "combine_scan env iter_dtype loop_count new_scan_outputs is combined =
     (case is of (i, scan) \<Rightarrow>
      bind_err (infer_shape env scan) (\<lambda>shp.
      bind_err (list_getitem new_scan_outputs (int i)) (\<lambda>new_scan.
        let expand_scan = Call (Op ''expand_dims'') [new_scan] [(''axis'', [0])];
            scan' = (if 0 < int (length shp) - 1
                     then Call (Op ''broadcast_to'')
                            [scan,
                             Call (Op ''concatenate'')
                               [Tuple [Call (Op ''reshape'') [loop_count] [(''newshape'', [1])],
                                       Call (Op ''shape_of'') [new_scan] []]]
                               [(''axis'', [0])]] []
                     else scan)
        in Inr (combined @
                  [Call (Op ''concatenate'') [Tuple [scan', expand_scan]] [(''axis'', [0])]]))))"

definition body_finish ::
  "env \<Rightarrow> expr option \<Rightarrow> string option \<Rightarrow> nat \<Rightarrow> expr list \<Rightarrow> expr \<Rightarrow> py_error + expr list" where
  "body_finish env max_loop_count iter_dtype num_deps loop_inputs loop_outputs =
     bind_err (list_getitem loop_inputs 0) (\<lambda>loop_count.
     bind_err (list_getitem loop_inputs 1) (\<lambda>max_count.
     bind_err (expr_getitem loop_outputs 0) (\<lambda>new_cond.
     bind_err (map_err (expr_getitem loop_outputs) [1 ..< 1 + num_deps]) (\<lambda>new_loop_vars.
     bind_err (expr_len loop_outputs) (\<lambda>n.
     bind_err (map_err (expr_getitem loop_outputs) [1 + num_deps ..< n]) (\<lambda>new_scan_outputs.
     bind_err (for_each (combine_scan env iter_dtype loop_count new_scan_outputs)
                 (enumerate 0 (drop (3 + num_deps) loop_inputs)) []) (\<lambda>combined_scan_outputs.
       let loop_count' = (if max_loop_count \<noteq> None
                          then Call (Op ''add'') [loop_count, const_scalar 1 iter_dtype] []
                          else loop_count)
       in Inr ([loop_count', max_count, new_cond] @ new_loop_vars @ combined_scan_outputs))))))))"

text \<open>\<open>while_loop\<close> of the IR library: a variable for the loop itself and a fresh
  variable for each variable of the state; then the recursive function.\<close>

definition while_loop_vars :: "expr list \<Rightarrow> nat \<Rightarrow> expr \<times> expr list \<times> nat" where
  "while_loop_vars loop_vars ctr =
     (Var ''while_loop'' None ctr,
      map (\<lambda>(i, lv). case lv of Var n t j \<Rightarrow> Var n t (Suc ctr + i) | _ \<Rightarrow> lv)
        (enumerate 0 loop_vars),
      Suc ctr + length loop_vars)"

definition while_loop_expr :: "expr \<Rightarrow> expr list \<Rightarrow> expr \<Rightarrow> expr list \<Rightarrow> expr" where
  "while_loop_expr loop fresh_vars cond_e body_out =
     Let loop (Function fresh_vars (If cond_e (Call loop body_out []) (Tuple fresh_vars))) loop"

text \<open>The outputs of the Loop node, from the loop applied to the initial values.\<close>

definition loop_result ::
  "expr \<Rightarrow> string option \<Rightarrow> expr option \<Rightarrow> expr option \<Rightarrow> expr option list \<Rightarrow> expr list
     \<Rightarrow> int \<Rightarrow> op_result" where
  "loop_result loop iter_dtype max_loop_count cond loop_deps scan_output_init num_outputs =
     (let init_count = const_scalar 0 iter_dtype;
          loop_vals = Call loop ([init_count, of_opt max_loop_count, of_opt cond]
                                   @ map of_opt loop_deps @ scan_output_init) []
      in if num_outputs = 1 then Expr (TupleGetItem loop_vals 3)
         else TupleWrapper (Tuple (map (\<lambda>i. TupleGetItem loop_vals (i + 3)) [0 ..< nat num_outputs]))
                (nat num_outputs))"

text \<open>
  What both control-flow converters do to the enclosing scope once the body is
  converted: the constants and \<^emph>\<open>all\<close> the bindings of the body's scope are written into
  the enclosing scope, then each free variable under its name hint.
\<close>

definition merge_scope :: "graph_proto \<Rightarrow> graph_proto \<Rightarrow> expr list \<Rightarrow> graph_proto" where
  "merge_scope graph_scope subgraph_scope fvs =
     graph_scope\<lparr> gp_params := dict_update (gp_params graph_scope) (gp_params subgraph_scope),
                  gp_nodes := fold (\<lambda>var nds. dict_set nds (name_hint var) var) fvs
                                (dict_update (gp_nodes graph_scope) (gp_nodes subgraph_scope)) \<rparr>"

text \<open>A new scope for a subgraph: \<open>GraphProto(shape, dtype, freeze_params)\<close> with a copy
  of the nodes of the enclosing scope.\<close>

definition subscope :: "graph_proto \<Rightarrow> graph_proto" where
  "subscope graph_scope =
     (GraphProto_init (gp_shape graph_scope) (gp_dtype graph_scope) (gp_freeze_params graph_scope))
       \<lparr> gp_nodes := gp_nodes graph_scope \<rparr>"

definition clear_input :: "onnx_graph \<Rightarrow> onnx_graph" where
  "clear_input body = Graph (g_node body) (g_initializer body) [] (g_output body)"

definition attr_graph :: "attr_value \<Rightarrow> py_error + onnx_graph" where
  "attr_graph v = (case v of AGraph g \<Rightarrow> Inr g | _ \<Rightarrow> Inl (AttributeError ''initializer''))"

definition result_expr :: "import_result \<Rightarrow> expr" where
  "result_expr r = (case r of OutputExpr e \<Rightarrow> e | Module (IRModule f) ps \<Rightarrow> f)"

definition scope_opset :: "graph_proto \<Rightarrow> int" where
  "scope_opset self = (case gp_opset self of Some v \<Rightarrow> v | None \<Rightarrow> 0)"

section \<open>Termination measure\<close>

definition vsz :: "attr_value \<Rightarrow> nat" where
  "vsz v = (case v of AGraph g \<Rightarrow> Suc (size g) | _ \<Rightarrow> 0)"

definition asz :: "attrs \<Rightarrow> nat" where
  "asz d = Max (insert 0 ((\<lambda>kv. vsz (snd kv)) ` set d))"

lemma bind_err_cong [fundef_cong]:
  "m = m' \<Longrightarrow> (\<And>x. m' = Inr x \<Longrightarrow> f x = f' x) \<Longrightarrow> bind_err m f = bind_err m' f'"
  by (auto simp: bind_err_def split: sum.splits)

lemma size_clear_input: "size (clear_input g) \<le> size g"
  by (cases g) (simp add: clear_input_def)

lemma size_g_node: "size_list size (g_node g) < size g"
  by (cases g) simp

lemma size_n_attribute: "size_list size (n_attribute n) < size n"
  by (cases n) simp

lemma vsz_le_asz: "(k, v) \<in> set d \<Longrightarrow> vsz v \<le> asz d"
  unfolding asz_def by (rule Max_ge) (auto intro: rev_image_eqI)

lemma asz_le_iff: "asz d \<le> n \<longleftrightarrow> (\<forall>(k, v) \<in> set d. vsz v \<le> n)"
  unfolding asz_def by (subst Max_le_iff) auto

lemma set_dict_set: "set (dict_set d k v) \<subseteq> insert (k, v) (set d)"
  unfolding dict_set_def by (induction d) auto

lemma set_field_bound:
  assumes "\<forall>(k, v) \<in> set d. vsz v \<le> n" "\<And>x. field = Some x \<Longrightarrow> vsz (mk x) \<le> n"
  shows "\<forall>(k, v) \<in> set (set_field name field mk d). vsz v \<le> n"
  using assms set_dict_set[of d name] by (cases field) (auto simp: set_field_def)

lemma set_repeated_bound:
  assumes "\<forall>(k, v) \<in> set d. vsz v \<le> n" "vsz (mk field) \<le> n"
    "set_repeated name field mk d = Inr d'"
  shows "\<forall>(k, v) \<in> set d'. vsz v \<le> n"
  using assms set_dict_set[of d name "mk field"]
  by (fastforce simp: set_repeated_def split: if_splits)

lemma size_a_g: "a_g a = Some g \<Longrightarrow> Suc (size g) \<le> size a"
  by (cases a) simp

lemma parse_attr_one_bound:
  assumes d: "\<forall>(k, v) \<in> set d. vsz v \<le> n" and a: "size a \<le> n"
    and p: "parse_attr_one a d = Inr d'"
  shows "\<forall>(k, v) \<in> set d'. vsz v \<le> n"
proof -
  let ?name = "a_name a"
  have g: "\<And>x. a_g a = Some x \<Longrightarrow> vsz (AGraph x) \<le> n"
    using size_a_g a by (fastforce simp: vsz_def)
  have d1: "\<forall>(k, v) \<in> set (set_field ?name (a_g a) AGraph
                 (set_field ?name (a_s a) ABytes
                   (set_field ?name (a_i a) AInt (set_field ?name (a_f a) AFloat d)))). vsz v \<le> n"
    by (intro set_field_bound d g) (simp_all add: vsz_def)
  from p obtain d2 d3 d4 d6 where
    s2: "set_repeated ?name (a_floats a) AFloats (set_field ?name (a_g a) AGraph
                 (set_field ?name (a_s a) ABytes
                   (set_field ?name (a_i a) AInt (set_field ?name (a_f a) AFloat d)))) = Inr d2"
    and s3: "set_repeated ?name (a_ints a) AInts d2 = Inr d3"
    and s4: "set_repeated ?name (a_strings a) AStrings d3 = Inr d4"
    and s6: "set_repeated ?name (a_tensors a) ATensors (set_field ?name (a_t a) ATensor d4) = Inr d6"
    and eq: "d' = d6"
    by (auto simp: parse_attr_one_def Let_def bind_err_def split: sum.splits if_splits)
  have b2: "\<forall>(k, v) \<in> set d2. vsz v \<le> n"
    by (rule set_repeated_bound[OF d1 _ s2]) (simp add: vsz_def)
  have b3: "\<forall>(k, v) \<in> set d3. vsz v \<le> n"
    by (rule set_repeated_bound[OF b2 _ s3]) (simp add: vsz_def)
  have b4: "\<forall>(k, v) \<in> set d4. vsz v \<le> n"
    by (rule set_repeated_bound[OF b3 _ s4]) (simp add: vsz_def)
  have b5: "\<forall>(k, v) \<in> set (set_field ?name (a_t a) ATensor d4). vsz v \<le> n"
    by (rule set_field_bound[OF b4]) (simp add: vsz_def)
  have b6: "\<forall>(k, v) \<in> set d6. vsz v \<le> n"
    by (rule set_repeated_bound[OF b5 _ s6]) (simp add: vsz_def)
  show ?thesis using b6 eq by simp
qed

lemma for_each_parse_bound:
  "\<forall>(k, v) \<in> set d. vsz v \<le> n \<Longrightarrow> \<forall>a \<in> set xs. size a \<le> n
     \<Longrightarrow> for_each parse_attr_one xs d = Inr d' \<Longrightarrow> \<forall>(k, v) \<in> set d'. vsz v \<le> n"
proof (induction xs arbitrary: d)
  case Nil then show ?case by simp
next
  case (Cons a xs)
  from Cons.prems(3) obtain d1 where p: "parse_attr_one a d = Inr d1"
    and r: "for_each parse_attr_one xs d1 = Inr d'"
    by (auto split: sum.splits)
  have "\<forall>(k, v) \<in> set d1. vsz v \<le> n"
    using parse_attr_one_bound[OF Cons.prems(1) _ p] Cons.prems(2) by simp
  then show ?case using Cons.IH[OF _ _ r] Cons.prems(2) by simp
qed

lemma size_le_size_list: "a \<in> set xs \<Longrightarrow> size a \<le> size_list size xs"
  by (induction xs) auto

lemma parse_attr_asz:
  assumes "parse_attr xs = Inr d"
  shows "asz (dict_set d k (ACustom s m)) \<le> size_list size xs"
proof -
  have "\<forall>(k, v) \<in> set d. vsz v \<le> size_list size xs"
    using for_each_parse_bound[of "[]" "size_list size xs" xs d] assms size_le_size_list
    by (auto simp: parse_attr_def)
  then show ?thesis
    unfolding asz_le_iff using set_dict_set[of d k "ACustom s m"]
    by (auto simp: vsz_def)
qed

lemma attr_graph_asz:
  assumes "dict_get attr k = Some v" "attr_graph v = Inr g"
  shows "Suc (size g) \<le> asz attr"
proof -
  have "(k, v) \<in> set attr" using assms(1) by (simp add: dict_get_def map_of_SomeD)
  moreover have "v = AGraph g" using assms(2) by (cases v) (auto simp: attr_graph_def)
  ultimately show ?thesis using vsz_le_asz[of k v attr] by (simp add: vsz_def)
qed

section \<open>The importer: \<open>GraphProto.from_onnx\<close> and the converters that recurse into it\<close>

function
  from_onnx_graph ::
    "env \<Rightarrow> nat \<Rightarrow> graph_proto \<Rightarrow> onnx_graph \<Rightarrow> int \<Rightarrow> bool
       \<Rightarrow> py_error + (import_result \<times> graph_proto \<times> nat)"
and convert_nodes ::
    "env \<Rightarrow> nat \<Rightarrow> graph_proto \<Rightarrow> int \<Rightarrow> onnx_node list \<Rightarrow> py_error + (nat \<times> graph_proto)"
and convert_operator ::
    "env \<Rightarrow> nat \<Rightarrow> graph_proto \<Rightarrow> string \<Rightarrow> expr option list \<Rightarrow> attrs \<Rightarrow> int
       \<Rightarrow> py_error + (op_result \<times> graph_proto \<times> nat)"
and Loop_impl ::
    "env \<Rightarrow> nat \<Rightarrow> graph_proto \<Rightarrow> expr option list \<Rightarrow> attrs
       \<Rightarrow> py_error + (op_result \<times> graph_proto \<times> nat)"
and If_impl ::
    "env \<Rightarrow> nat \<Rightarrow> graph_proto \<Rightarrow> expr option list \<Rightarrow> attrs
       \<Rightarrow> py_error + (op_result \<times> graph_proto \<times> nat)"
where
  "from_onnx_graph env ctr self0 graph opset get_output_expr =
     bind_err (for_each (load_initializer env) (g_initializer graph)
                 (ctr, self0\<lparr> gp_opset := Some opset \<rparr>)) (\<lambda>st1.
     bind_err (for_each (load_input env) (g_input graph) st1) (\<lambda>(ctr2, self2).
     bind_err (check_shapes self2) (\<lambda>u1.
     bind_err (get_convert_map env opset) (\<lambda>convert_map.
     bind_err (check_unsupported convert_map (g_node graph)) (\<lambda>u2.
     bind_err (convert_nodes env ctr2 self2 opset (g_node graph)) (\<lambda>(ctr3, self3).
     bind_err (graph_outputs self3 (g_output graph)) (\<lambda>outputs.
       if get_output_expr then Inr (OutputExpr outputs, self3, ctr3)
       else bind_err (assemble self3 outputs) (\<lambda>(res, self4). Inr (res, self4, ctr3)))))))))"
| "convert_nodes env ctr self opset [] = Inr (ctr, self)"
| "convert_nodes env ctr self opset (node # rest) =
     bind_err (parse_attr (n_attribute node)) (\<lambda>attr0.
     bind_err (node_inputs self (n_input node)) (\<lambda>inputs.
     bind_err (convert_operator env ctr self (n_op_type node) inputs
                 (dict_set attr0 ''tvm_custom''
                    (ACustom (n_name node) (length (fix_outputs (n_op_type node) (n_output node)))))
                 opset) (\<lambda>(op0, self1, ctr1).
     bind_err (fold_op env op0) (\<lambda>op.
     bind_err (reconcile op (fix_outputs (n_op_type node) (n_output node)))
       (\<lambda>(op', outputs_num, node_output).
     bind_err (bind_outputs (gp_nodes self1) op' outputs_num node_output) (\<lambda>nds.
       convert_nodes env ctr1 (self1\<lparr> gp_nodes := nds \<rparr>) opset rest))))))"
| "convert_operator env ctr self op_name inputs attr opset =
     bind_err (get_convert_map env opset) (\<lambda>convert_map.
       if op_name \<in> set identity_list then Inl (OracleError ''get_relay_op'')
       else
         (case dict_get convert_map op_name of
            Some (Plain f) \<Rightarrow> bind_err (f inputs attr (gp_params self)) (\<lambda>op. Inr (op, self, ctr))
          | Some Loop_impl_v11 \<Rightarrow> Loop_impl env ctr self inputs attr
          | Some If_impl_v1 \<Rightarrow> If_impl env ctr self inputs attr
          | None \<Rightarrow> Inl (NotImplementedError op_name)))"
| "Loop_impl env ctr graph_scope inputs attr =
     bind_err (getitem_int inputs 0) (\<lambda>max_loop_count.
     bind_err (getitem_int inputs 1) (\<lambda>cond.
     bind_err (getitem_slice inputs (Slice (Some 2) None None)) (\<lambda>loop_deps.
     bind_err (dict_item attr ''body'') (\<lambda>body_attr.
     bind_err (infer_type env (of_opt max_loop_count)) (\<lambda>iter_ty.
     bind_err (if cond = None \<and> max_loop_count = None then Inl (AssertionError [])
               else attr_graph body_attr) (\<lambda>body.
     bind_err (make_loop_vars env body (ty_dtype iter_ty) cond loop_deps ctr) (\<lambda>(loop_vars, ctr1).
     bind_err
       (if 0 < int (length (g_output body)) - (1 + int (length loop_deps))
        then bind_err (from_onnx_graph env ctr1 (enter False (subscope graph_scope)) body
                         (scope_opset graph_scope) True)
               (\<lambda>(res, sub, c). Inr (result_expr res, sub, c))
        else Inr (PyNone, subscope graph_scope, ctr1)) (\<lambda>(loop_outputs, sub1, ctr2).
     bind_err
       (for_each (scan_output_step env body (length loop_deps) loop_outputs)
          [0 ..< nat (int (length (g_output body)) - (1 + int (length loop_deps)))]
          ([], [], ctr2)) (\<lambda>(scan_output_vars, scan_output_init, ctr3).
     case while_loop_vars (loop_vars @ scan_output_vars) ctr3 of (loop_v, fresh_vars, ctr4) \<Rightarrow>
     bind_err (cond_fn max_loop_count cond fresh_vars) (\<lambda>cond_e.
     bind_err (body_bind sub1 (map name_hint loop_vars) fresh_vars (length loop_deps)) (\<lambda>sub2.
     bind_err (from_onnx_graph env ctr4 (enter False sub2) (clear_input body)
                 (scope_opset graph_scope) True) (\<lambda>(res2, sub3, ctr5).
     bind_err (body_finish env max_loop_count (ty_dtype iter_ty) (length loop_deps) fresh_vars
                 (result_expr res2)) (\<lambda>body_out.
       let loop = fold_constant env (while_loop_expr loop_v fresh_vars cond_e body_out)
       in Inr (loop_result loop (ty_dtype iter_ty) max_loop_count cond loop_deps scan_output_init
                 (int (length (g_output body)) - 1),
               merge_scope graph_scope sub3 (free_vars loop),
               ctr5))))))))))))))"
| "If_impl env ctr graph_scope inputs attr =
     bind_err (getitem_int inputs 0) (\<lambda>cond0.
     bind_err (infer_shape env (of_opt cond0)) (\<lambda>shp.
     bind_err (case dict_get attr ''then_branch'' of
                 None \<Rightarrow> Inl (AssertionError [])
               | Some t \<Rightarrow> (case dict_get attr ''else_branch'' of
                              None \<Rightarrow> Inl (AssertionError [])
                            | Some e \<Rightarrow> Inr (t, e))) (\<lambda>(then_attr, else_attr).
     bind_err (attr_graph then_attr) (\<lambda>then_branch.
     bind_err (from_onnx_graph env ctr (enter False (subscope graph_scope)) then_branch
                 (scope_opset graph_scope) True) (\<lambda>(res_t, then_graph, ctr1).
     bind_err (attr_graph else_attr) (\<lambda>else_branch.
     bind_err (from_onnx_graph env ctr1 (enter False (subscope graph_scope)) else_branch
                 (scope_opset graph_scope) True) (\<lambda>(res_e, else_graph, ctr2).
       let cond = (if 0 < length shp
                   then Call (Op ''take'') [of_opt cond0, const_scalar 0 (Some ''int64'')] []
                   else of_opt cond0);
           then_expr = result_expr res_t;
           else_expr = result_expr res_e;
           scope1 = merge_scope graph_scope then_graph (free_vars then_expr);
           scope2 = merge_scope scope1 else_graph (free_vars else_expr);
           ret = If cond then_expr else_expr
       in Inr (if 1 < length (g_output then_branch)
               then TupleWrapper ret (length (g_output then_branch))
               else Expr ret,
               scope2, ctr2))))))))"
  by pat_completeness auto

termination
proof (relation "measure (\<lambda>x. case x of
      Inl (Inl (env, ctr, self, g, opset, flag)) \<Rightarrow> 3 * size g + 2
    | Inl (Inr (env, ctr, self, opset, ns)) \<Rightarrow> 3 * size_list size ns + 1
    | Inr (Inl (env, ctr, self, op_name, inputs, attr, opset)) \<Rightarrow> 3 * asz attr + 2
    | Inr (Inr (Inl (env, ctr, self, inputs, attr))) \<Rightarrow> 3 * asz attr + 1
    | Inr (Inr (Inr (env, ctr, self, inputs, attr))) \<Rightarrow> 3 * asz attr + 1)", goal_cases)
  case 1 show ?case by simp
next
  case (2 env ctr self0 graph) then show ?case using size_g_node[of graph] by simp
next
  case (3 env ctr self opset node rest x) then show ?case
    using parse_attr_asz[of "n_attribute node" x "''tvm_custom''" "n_name node"
        "length (fix_outputs (n_op_type node) (n_output node))"] size_n_attribute[of node]
    by simp
next
  case 4 then show ?case by simp
next
  case 5 then show ?case by simp
next
  case 6 then show ?case by simp
next
  case (7 env ctr graph_scope inputs attr x xa xb xc xd xe) then show ?case
    using attr_graph_asz[of attr "''body''" xc xe]
    by (auto simp: dict_item_def split: option.splits if_splits)
next
  case (8 env ctr graph_scope inputs attr x xa xb xc xd xe) then show ?case
    using attr_graph_asz[of attr "''body''" xc xe] size_clear_input[of xe]
    by (auto simp: dict_item_def split: option.splits if_splits)
next
  case (9 env ctr graph_scope inputs attr x xa xb xc y xba) then show ?case
    using attr_graph_asz[of attr "''then_branch''" xc xba]
    by (auto split: option.splits)
next
  case (10 env ctr graph_scope inputs attr x xa xb xc y xba xbb xbc ya xbd yb xbe) then show ?case
    using attr_graph_asz[of attr "''else_branch''" y xbe]
    by (auto split: option.splits)
qed

section \<open>The entry point: \<open>from_onnx\<close>\<close>

datatype onnx_model = ModelProto (m_graph: onnx_graph) (m_opset_import: "int list")

text \<open>
  The module-level \<open>from_onnx\<close>: a fresh outermost scope, the opset of the model unless
  the caller overrides it (a lower override only warns), and the import of the graph.
\<close>

definition from_onnx ::
  "env \<Rightarrow> onnx_model \<Rightarrow> (string, dim list) dict \<Rightarrow> dtype_spec \<Rightarrow> int option \<Rightarrow> bool
     \<Rightarrow> py_error + import_result" where
  "from_onnx env model shp dt opset freeze_params =
     (let g = GraphProto_init shp dt freeze_params;
          opset_in_model = (case m_opset_import model of [] \<Rightarrow> 1 | v # vs \<Rightarrow> v);
          opset' = (case opset of None \<Rightarrow> opset_in_model | Some v \<Rightarrow> v)
      in bind_err (from_onnx_graph env 0 (enter True g) (m_graph model) opset' False)
           (\<lambda>(res, self, ctr). Inr res))"

section \<open>An example environment and example graphs\<close>

text \<open>
  A small registry: \<open>Identity\<close> (a copy of its input), \<open>Loop\<close> from opset 11 and \<open>If\<close>
  from opset 1; tensors decode to \<open>float32\<close> arrays, constant folding changes nothing,
  and the inferred type of the trip count is a scalar \<open>int64\<close>.
\<close>

definition example_env :: env where
  "example_env =
     \<lparr> registry = [(''Identity'', Fixed (Plain (\<lambda>inputs attr params.
                       case inputs of [Some x] \<Rightarrow> Inr (Expr (Call (Op ''copy'') [x] []))
                                    | _ \<Rightarrow> Inl (AssertionError [])))),
                    (''Loop'', Versioned [(11, Loop_impl_v11)]),
                    (''If'', Versioned [(1, If_impl_v1)])],
       get_numpy = (\<lambda>t. Inr (NDArray [int (length (tp_raw_data t))] ''float32'' (tp_raw_data t))),
       get_type = (\<lambda>n. if n = 1 then Inr ''float32'' else if n = 7 then Inr ''int64''
                         else if n = 9 then Inr ''bool'' else Inl (KeyError ''elem_type'')),
       fold_constant = (\<lambda>e. e),
       infer_type = (\<lambda>e. Inr (TensorType [] (Some ''int64''))),
       infer_shape = (\<lambda>e. Inr []) \<rparr>"

text \<open>A graph with the unregistered operators \<open>Foo\<close> (twice) and \<open>Bar\<close>.\<close>

definition two_unsupported :: onnx_graph where
  "two_unsupported =
     Graph [NodeProto ''Foo'' [''x''] [''a''] [] [],
            NodeProto ''Identity'' [''a''] [''b''] [] [],
            NodeProto ''Bar'' [''b''] [''c''] [] [],
            NodeProto ''Foo'' [''c''] [''d''] [] []]
       [] [ValueInfo ''x'' [([], 2)] 1] [ValueInfo ''d'' [([], 2)] 1]"

text \<open>
  The example environment with a \<open>Dropout\<close> converter that returns one expression, as
  \<open>nn.dropout\<close> does, and a scope in which the input \<open>x\<close> is bound.
\<close>

definition dropout_env :: env where
  "dropout_env =
     example_env\<lparr> registry :=
       (''Dropout'', Fixed (Plain (\<lambda>inputs attr params.
            case inputs of
              Some x # rest \<Rightarrow> Inr (Expr (TupleGetItem (Call (Op ''nn.dropout'') [x] []) 0))
            | _ \<Rightarrow> Inl (AssertionError []))))
       # registry example_env \<rparr>"

definition dropout_scope :: graph_proto where
  "dropout_scope =
     (enter True (GraphProto_init [] (DtypeStr ''float32'') False))
       \<lparr> gp_nodes := [(''x'', Var ''x'' (Some (TensorType [Dim 2] (Some ''float32''))) 0)],
         gp_inputs := [(''x'', Var ''x'' (Some (TensorType [Dim 2] (Some ''float32''))) 0)],
         gp_opset := Some 11 \<rparr>"










section \<open>Properties of the node-input list\<close>

lemma py_range_pos_bounds:
  assumes "0 < step" "x \<in> set (py_range a b step)"
  shows "a \<le> x \<and> x < b"
proof -
  from assms(2) obtain k where k: "k < range_len a b step" "x = a + int k * step"
    by (auto simp: py_range_def)
  from k(1) assms(1) have ab: "a < b" and kk: "int k \<le> (b - a - 1) div step"
    by (auto simp: range_len_def split: if_splits)
  have "int k * step \<le> ((b - a - 1) div step) * step"
    using kk assms(1) by (simp add: mult_right_mono)
  also have "\<dots> \<le> b - a - 1"
    using assms(1) by (metis div_mult_mod_eq add.commute le_add_same_cancel2 pos_mod_sign)
  finally show ?thesis using k(2) assms(1) by simp
qed

lemma py_range_neg_bounds:
  assumes "step < 0" "x \<in> set (py_range a b step)"
  shows "b < x \<and> x \<le> a"
proof -
  from assms(2) obtain k where k: "k < range_len a b step" "x = a + int k * step"
    by (auto simp: py_range_def)
  from k(1) assms(1) have ab: "b < a" and kk: "int k \<le> (a - b - 1) div (- step)"
    by (auto simp: range_len_def split: if_splits)
  have "int k * (- step) \<le> ((a - b - 1) div (- step)) * (- step)"
    using kk assms(1) by (simp add: mult_right_mono)
  also have "\<dots> \<le> a - b - 1"
    using assms(1) by (metis div_mult_mod_eq add.commute le_add_same_cancel2 pos_mod_sign neg_0_less_iff_less)
  finally have "int k * (- step) \<le> a - b - 1" .
  moreover have "0 \<le> int k * (- step)" using assms(1) by (intro mult_nonneg_nonneg) auto
  ultimately show ?thesis using k(2) by simp
qed

lemma range_slice_bounds:
  assumes "range_slice n sl = Inr idx" "x \<in> set idx"
  shows "0 \<le> x \<and> x < n"
proof -
  obtain start stop step where si: "slice_indices sl (max n 0) = Inr (start, stop, step)"
    and idx: "idx = py_range start stop step"
    using assms(1) by (auto simp: range_slice_def split: sum.splits)
  have nz: "step \<noteq> 0" using si by (auto simp: slice_indices_def Let_def split: if_splits)
  show ?thesis
  proof (cases "0 < step")
    case True
    have "0 \<le> start" "stop \<le> max n 0"
      using si True by (auto simp: slice_indices_def Let_def split: if_splits option.splits)
    moreover have "start \<le> x \<and> x < stop"
      using py_range_pos_bounds[OF True] assms(2) idx by simp
    ultimately show ?thesis by auto
  next
    case False
    then have neg: "step < 0" using nz by simp
    have "start \<le> max n 0 - 1" "- 1 \<le> stop"
      using si neg by (auto simp: slice_indices_def Let_def split: if_splits option.splits)
    moreover have "stop < x \<and> x \<le> start"
      using py_range_neg_bounds[OF neg] assms(2) idx by simp
    ultimately show ?thesis by auto
  qed
qed

lemma map_err_getitem_int:
  "\<forall>i \<in> set idx. 0 \<le> i \<Longrightarrow>
     map_err (getitem_int self) idx
       = Inr (map (\<lambda>i. if i < int (length self) then self ! nat i else None) idx)"
  by (induction idx) (auto simp: getitem_int_def list_getitem_def)

lemma getitem_slice_padded:
  assumes "int (length self) \<le> t"
  shows "getitem self (KSlice (Slice s (Some t) st)) =
         map_sum id Many (list_slice (self @ replicate (nat t - length self) None) (Slice s (Some t) st))"
proof -
  let ?pad = "self @ replicate (nat t - length self) None"
  have len: "int (length ?pad) = t" using assms by simp
  show ?thesis
  proof (cases "range_slice t (Slice s (Some t) st)")
    case (Inl e)
    then show ?thesis
      unfolding getitem_def getitem_slice_def list_slice_def len by (simp add: bind_err_def)
  next
    case (Inr idx)
    have nonneg: "\<forall>i \<in> set idx. 0 \<le> i" using range_slice_bounds[OF Inr] by simp
    have "map (\<lambda>i. if i < int (length self) then self ! nat i else None) idx
          = map (\<lambda>i. ?pad ! nat i) idx"
    proof (rule map_cong[OF refl])
      fix x assume "x \<in> set idx"
      then have b: "0 \<le> x \<and> x < t" using range_slice_bounds[OF Inr] by simp
      show "(if x < int (length self) then self ! nat x else None) = ?pad ! nat x"
        using b by (auto simp: nth_append)
    qed
    then show ?thesis
      using Inr map_err_getitem_int[OF nonneg, of self]
      unfolding getitem_def getitem_slice_def list_slice_def len by (simp add: bind_err_def)
  qed
qed

text \<open>
  C9. Indexing the node-input list with an integer at or beyond its length returns
  \<open>None\<close>; a slice whose stop is at or beyond the length is the ordinary slice of the
  list padded with \<open>None\<close> up to that stop; a key that is neither an integer nor a
  slice raises \<open>TypeError\<close>; a negative integer behaves as on an ordinary list (it
  counts from the end and raises \<open>IndexError\<close> below \<open>-len\<close>).
\<close>

theorem onnx_input_getitem:
  "(int (length self) \<le> i \<longrightarrow> getitem self (KInt i) = Inr (Single None))
   \<and> (int (length self) \<le> t \<longrightarrow>
         getitem self (KSlice (Slice s (Some t) st)) =
         map_sum id Many
           (list_slice (self @ replicate (nat t - length self) None) (Slice s (Some t) st)))
   \<and> (\<exists>msg. getitem self (KOther ty) = Inl (TypeError msg))
   \<and> (j < 0 \<longrightarrow> getitem self (KInt j) = map_sum id Single (list_getitem self j))"
proof (intro conjI impI)
  assume "int (length self) \<le> i"
  then show "getitem self (KInt i) = Inr (Single None)"
    by (simp add: getitem_def getitem_int_def bind_err_def)
next
  assume "int (length self) \<le> t"
  then show "getitem self (KSlice (Slice s (Some t) st)) =
         map_sum id Many
           (list_slice (self @ replicate (nat t - length self) None) (Slice s (Some t) st))"
    by (rule getitem_slice_padded)
next
  show "\<exists>msg. getitem self (KOther ty) = Inl (TypeError msg)"
    by (simp add: getitem_def)
next
  assume "j < 0"
  then show "getitem self (KInt j) = map_sum id Single (list_getitem self j)"
    by (cases "list_getitem self j") (auto simp: getitem_def getitem_int_def bind_err_def)
qed

theorem onnx_input_getitem_witness:
  "getitem [Some (10::nat), Some 20] (KInt 2) = Inr (Single None)
   \<and> getitem [Some (10::nat), Some 20] (KSlice (Slice (Some 1) (Some 4) None))
       = Inr (Many [Some 20, None, None])
   \<and> (\<exists>msg. getitem [Some (10::nat), Some 20] (KOther ''str'') = Inl (TypeError msg))
   \<and> getitem [Some (10::nat), Some 20] (KInt (- 3)) = Inl IndexError"
proof -
  have pad: "list_slice ([Some (10::nat), Some 20] @ replicate (nat 4 - length [Some (10::nat), Some 20]) None)
               (Slice (Some 1) (Some 4) None) = Inr [Some 20, None, None]"
    by code_simp
  have neg: "list_getitem [Some (10::nat), Some 20] (- 3) = Inl IndexError"
    by code_simp
  show ?thesis
    using onnx_input_getitem[of "[Some (10::nat), Some 20]" 2 4 "Some 1" None "''str''" "- 3"]
    unfolding pad neg by simp
qed

section \<open>Properties of the output reconciliation\<close>

lemma map_err_total: "\<forall>x \<in> set xs. f x = Inr (g x) \<Longrightarrow> map_err f xs = Inr (map g xs)"
  by (induction xs) auto

lemma mark_valid_all:
  "\<forall>i < length ns. ns ! i \<noteq> [] \<longrightarrow> n + i < length valid \<Longrightarrow>
     for_each mark_valid (enumerate n ns) valid
       = Inr (map (\<lambda>j. valid ! j \<or> (n \<le> j \<and> j < n + length ns \<and> ns ! (j - n) \<noteq> []))
                [0 ..< length valid])"
proof (induction ns arbitrary: n valid)
  case Nil
  have "map (\<lambda>j. valid ! j \<or> (n \<le> j \<and> j < n + length ([]::string list) \<and> [] ! (j - n) \<noteq> ([]::string))) [0 ..< length valid] = valid"
    by (rule nth_equalityI) auto
  then show ?case by simp
next
  case (Cons x xs)
  let ?v = "if x \<noteq> [] then valid[n := True] else valid"
  have step: "mark_valid (n, x) valid = Inr ?v"
    using Cons.prems by (auto simp: mark_valid_def)
  have pre: "\<forall>i < length xs. xs ! i \<noteq> [] \<longrightarrow> Suc n + i < length ?v"
    using Cons.prems by auto
  have "for_each mark_valid (enumerate n (x # xs)) valid
          = for_each mark_valid (enumerate (Suc n) xs) ?v"
    using step by simp
  also have "\<dots> = Inr (map (\<lambda>j. ?v ! j \<or> (Suc n \<le> j \<and> j < Suc n + length xs \<and> xs ! (j - Suc n) \<noteq> []))
                [0 ..< length ?v])"
    by (rule Cons.IH[OF pre])
  also have "map (\<lambda>j. ?v ! j \<or> (Suc n \<le> j \<and> j < Suc n + length xs \<and> xs ! (j - Suc n) \<noteq> []))
                [0 ..< length ?v]
           = map (\<lambda>j. valid ! j \<or> (n \<le> j \<and> j < n + length (x # xs) \<and> (x # xs) ! (j - n) \<noteq> []))
                [0 ..< length valid]"
  proof (rule nth_equalityI)
    show "length (map (\<lambda>j. ?v ! j \<or> (Suc n \<le> j \<and> j < Suc n + length xs \<and> xs ! (j - Suc n) \<noteq> []))
                [0 ..< length ?v])
        = length (map (\<lambda>j. valid ! j \<or> (n \<le> j \<and> j < n + length (x # xs) \<and> (x # xs) ! (j - n) \<noteq> []))
                [0 ..< length valid])" by simp
  next
    fix j assume "j < length (map (\<lambda>j. ?v ! j \<or> (Suc n \<le> j \<and> j < Suc n + length xs \<and> xs ! (j - Suc n) \<noteq> []))
                [0 ..< length ?v])"
    then have j: "j < length valid" by (simp split: if_splits)
    show "map (\<lambda>j. ?v ! j \<or> (Suc n \<le> j \<and> j < Suc n + length xs \<and> xs ! (j - Suc n) \<noteq> []))
                [0 ..< length ?v] ! j
        = map (\<lambda>j. valid ! j \<or> (n \<le> j \<and> j < n + length (x # xs) \<and> (x # xs) ! (j - n) \<noteq> []))
                [0 ..< length valid] ! j"
    proof (cases "j = n")
      case True
      then show ?thesis using j by (auto simp: nth_list_update)
    next
      case False
      then show ?thesis using j
        by (auto simp: nth_list_update nth_Cons' Suc_diff_le elim: less_SucE)
    qed
  qed
  finally show ?case .
qed

lemma mark_valid_fail:
  "\<exists>i < length ns. ns ! i \<noteq> [] \<and> length valid \<le> n + i \<Longrightarrow>
     for_each mark_valid (enumerate n ns) valid = Inl IndexError"
proof (induction ns arbitrary: n valid)
  case Nil then show ?case by simp
next
  case (Cons x xs)
  show ?case
  proof (cases "x \<noteq> [] \<and> length valid \<le> n")
    case True
    then show ?thesis by (simp add: mark_valid_def)
  next
    case False
    let ?v = "if x \<noteq> [] then valid[n := True] else valid"
    have step: "mark_valid (n, x) valid = Inr ?v"
      using False by (auto simp: mark_valid_def)
    from Cons.prems obtain i where i: "i < length (x # xs)" "(x # xs) ! i \<noteq> []" "length valid \<le> n + i"
      by blast
    have "i \<noteq> 0" using False i by (cases i) auto
    then obtain i' where i': "i = Suc i'" by (cases i) auto
    have "\<exists>i < length xs. xs ! i \<noteq> [] \<and> length ?v \<le> Suc n + i"
      using i i' by (intro exI[of _ i']) auto
    from Cons.IH[OF this] show ?thesis using step by simp
  qed
qed

lemma valid_mask:
  assumes "\<forall>i < length ns. k \<le> i \<longrightarrow> ns ! i = []"
  shows "for_each mark_valid (enumerate 0 ns) (replicate k False)
           = Inr (map (\<lambda>j. j < length ns \<and> ns ! j \<noteq> []) [0 ..< k])"
proof -
  have "\<forall>i < length ns. ns ! i \<noteq> [] \<longrightarrow> 0 + i < length (replicate k False)"
    using assms by (auto simp: not_le[symmetric])
  from mark_valid_all[OF this] show ?thesis by simp
qed


lemma nths_conv_filter:
  "nths xs {i. P i} = map (\<lambda>i. xs ! i) (filter P [0 ..< length xs])"
proof -
  have z: "zip xs [0 ..< length xs] = map (\<lambda>i. (xs ! i, i)) [0 ..< length xs]"
    by (rule nth_equalityI) auto
  show ?thesis
    unfolding nths_def z by (simp add: filter_map o_def)
qed

lemma count_nonempty:
  assumes "\<forall>i < length ns. ns ! i \<noteq> [] \<longrightarrow> i < k"
  shows "length (filter (\<lambda>i. i < length ns \<and> ns ! i \<noteq> []) [0 ..< k])
           = length (filter (\<lambda>n. n \<noteq> []) (ns :: string list))"
proof -
  have a: "filter (\<lambda>i. i < length ns \<and> ns ! i \<noteq> []) [0 ..< k]
             = filter (\<lambda>i. ns ! i \<noteq> []) [0 ..< length ns]"
  proof (cases "k \<le> length ns")
    case True
    have "[0 ..< length ns] = [0 ..< k] @ [k ..< length ns]"
      using True by (metis le_add_diff_inverse upt_add_eq_append zero_le)
    moreover have "filter (\<lambda>i. ns ! i \<noteq> []) [k ..< length ns] = []"
      using assms by (auto simp: filter_empty_conv)
    moreover have "filter (\<lambda>i. i < length ns \<and> ns ! i \<noteq> []) [0 ..< k]
                     = filter (\<lambda>i. ns ! i \<noteq> []) [0 ..< k]"
      using True by (intro filter_cong) auto
    ultimately show ?thesis by simp
  next
    case False
    have "[0 ..< k] = [0 ..< length ns] @ [length ns ..< k]"
      using False by (metis le_add_diff_inverse nat_le_linear upt_add_eq_append zero_le)
    moreover have "filter (\<lambda>i. i < length ns \<and> ns ! i \<noteq> []) [length ns ..< k] = []"
      by (auto simp: filter_empty_conv)
    moreover have "filter (\<lambda>i. i < length ns \<and> ns ! i \<noteq> []) [0 ..< length ns]
                     = filter (\<lambda>i. ns ! i \<noteq> []) [0 ..< length ns]"
      by (intro filter_cong) auto
    ultimately show ?thesis by simp
  qed
  have "filter (\<lambda>n. n \<noteq> []) ns = filter (\<lambda>n. n \<noteq> []) (map (\<lambda>i. ns ! i) [0 ..< length ns])"
    by (simp add: map_nth)
  also have "\<dots> = map (\<lambda>i. ns ! i) (filter (\<lambda>i. ns ! i \<noteq> []) [0 ..< length ns])"
    by (simp add: filter_map o_def)
  finally show ?thesis using a by simp
qed

lemma select_outputs:
  assumes len: "length (produced op) = outputs_num_of op"
    and kept: "\<forall>i \<in> set kept. i < outputs_num_of op"
    and k: "1 < outputs_num_of op"
  shows "(case astuple op of
            Tuple fs \<Rightarrow> map_err (\<lambda>i. list_getitem fs (int i)) kept
          | _ \<Rightarrow> map_err (op_getitem op) kept)
         = Inr (map (\<lambda>i. produced op ! i) kept)"
proof (cases op)
  case (Expr e)
  then show ?thesis using k by (simp add: outputs_num_of_def)
next
  case (TupleWrapper t n)
  show ?thesis
  proof (cases "\<exists>fs. t = Tuple fs")
    case True
    then obtain fs where t: "t = Tuple fs" by blast
    have n: "n \<le> length fs"
      using len TupleWrapper t by (simp add: produced_def outputs_num_of_def)
    have "\<forall>i \<in> set kept. list_getitem fs (int i) = Inr (produced op ! i)"
      using kept n TupleWrapper t
      by (auto simp: list_getitem_def produced_def outputs_num_of_def)
    from map_err_total[of kept "\<lambda>i. list_getitem fs (int i)" "\<lambda>i. produced op ! i", OF this]
    show ?thesis using TupleWrapper t by (simp add: astuple_def)
  next
    case False
    have "\<forall>i \<in> set kept. op_getitem op i = Inr (produced op ! i)"
      using kept TupleWrapper False
      by (cases t) (auto simp: op_getitem_def tw_getitem_def produced_def outputs_num_of_def)
    from map_err_total[of kept "op_getitem op" "\<lambda>i. produced op ! i", OF this]
    show ?thesis using TupleWrapper False by (cases t) (simp_all add: astuple_def)
  qed
qed

lemma mask_all:
  "list_all id (map (\<lambda>j. j < length ns \<and> ns ! j \<noteq> []) [0 ..< k])
     \<longleftrightarrow> (\<forall>i < k. i < length ns \<and> ns ! i \<noteq> [])"
  by (auto simp: list_all_iff)

lemma mask_kept:
  "filter (\<lambda>i. map (\<lambda>j. j < length ns \<and> ns ! j \<noteq> []) [0 ..< k] ! i) [0 ..< k]
     = filter (\<lambda>i. i < length ns \<and> ns ! i \<noteq> []) [0 ..< k]"
  by (rule filter_cong) auto

text \<open>
  C3 (amended). Let the operator have produced \<open>k > 1\<close> outputs, let every non-empty
  declared output name sit at a position below \<open>k\<close>, and let some position below \<open>k\<close>
  have no non-empty declared name (the name is empty, or the declared list is shorter).
  Then the reconciliation succeeds: it keeps exactly the produced values at the positions
  with a non-empty declared name, in their original order and renumbered contiguously
  (a single survivor is unwrapped), the names that remain are the non-empty declared
  names in order, and the count of outputs equals the number of non-empty declared
  names. Produced values beyond the end of the declared list are dropped as well, and no
  arity error arises in this situation.
\<close>

theorem reconcile_drops_unnamed:
  assumes len: "length (produced op) = outputs_num_of op"
    and k: "1 < outputs_num_of op"
    and bound: "\<forall>i < length ns. ns ! i \<noteq> [] \<longrightarrow> i < outputs_num_of op"
    and some: "\<exists>i < outputs_num_of op. \<not> (i < length ns \<and> ns ! i \<noteq> [])"
  shows "reconcile op ns =
           (let outputs = nths (produced op) {i. i < length ns \<and> ns ! i \<noteq> []} in
            Inr (if length outputs = 1 then Expr (hd outputs)
                 else TupleWrapper (Tuple outputs) (length outputs),
                 length (filter (\<lambda>n. n \<noteq> []) ns),
                 filter (\<lambda>n. n \<noteq> []) ns))
         \<and> length (nths (produced op) {i. i < length ns \<and> ns ! i \<noteq> []})
             = length (filter (\<lambda>n. n \<noteq> []) ns)"
proof -
  let ?k = "outputs_num_of op"
  let ?mask = "map (\<lambda>j. j < length ns \<and> ns ! j \<noteq> []) [0 ..< ?k]"
  let ?kept = "filter (\<lambda>i. i < length ns \<and> ns ! i \<noteq> []) [0 ..< ?k]"
  let ?outs = "map (\<lambda>i. produced op ! i) ?kept"
  have m: "for_each mark_valid (enumerate 0 ns) (replicate ?k False) = Inr ?mask"
    using bound by (intro valid_mask) (auto simp: not_le[symmetric])
  have na: "\<not> list_all id ?mask" using some unfolding mask_all by blast
  have kp: "filter (\<lambda>i. ?mask ! i) [0 ..< length ?mask] = ?kept"
    using mask_kept[of ns ?k] by simp
  have sel: "(case astuple op of
                Tuple fs \<Rightarrow> map_err (\<lambda>i. list_getitem fs (int i)) ?kept
              | _ \<Rightarrow> map_err (op_getitem op) ?kept) = Inr ?outs"
    by (rule select_outputs[OF len _ k]) simp
  have n: "nths (produced op) {i. i < length ns \<and> ns ! i \<noteq> []} = ?outs"
    using len by (simp add: nths_conv_filter)
  have cnt: "length ?outs = length (filter (\<lambda>n. n \<noteq> []) ns)"
    using count_nonempty[OF bound] by simp
  have lt: "length ?outs \<noteq> ?k"
  proof -
    from some obtain i where i: "i < ?k" "\<not> (i < length ns \<and> ns ! i \<noteq> [])" by blast
    have "length ?kept < length [0 ..< ?k]"
      by (rule length_filter_less[of i]) (use i in auto)
    then show ?thesis by simp
  qed
  have "reconcile op ns =
          Inr (if length ?outs = 1 then Expr (hd ?outs)
               else TupleWrapper (Tuple ?outs) (length ?outs),
               length (filter (\<lambda>n. n \<noteq> []) ns), filter (\<lambda>n. n \<noteq> []) ns)"
    unfolding reconcile_def Let_def using k
    by (simp only: m bind_err_def sum.case if_True na kp sel not_False_eq_True)
       (use cnt lt in \<open>simp\<close>)
  then show ?thesis unfolding n Let_def using cnt by simp
qed

theorem reconcile_drops_unnamed_witness:
  "reconcile (TupleWrapper (Call (Op ''Split'') [] []) 3) [''a'', [], ''c'']
     = Inr (TupleWrapper (Tuple [TupleGetItem (Call (Op ''Split'') [] []) 0,
                                 TupleGetItem (Call (Op ''Split'') [] []) 2]) 2,
            2, [''a'', ''c''])"
proof -
  let ?op = "TupleWrapper (Call (Op ''Split'') [] []) 3"
  let ?ns = "[''a'', [], ''c'']"
  have len: "length (produced ?op) = outputs_num_of ?op"
    by (simp add: produced_def outputs_num_of_def)
  have k: "1 < outputs_num_of ?op" by (simp add: outputs_num_of_def)
  have bound: "\<forall>i < length ?ns. ?ns ! i \<noteq> [] \<longrightarrow> i < outputs_num_of ?op"
    by (simp add: outputs_num_of_def)
  have some: "\<exists>i < outputs_num_of ?op. \<not> (i < length ?ns \<and> ?ns ! i \<noteq> [])"
    by (rule exI[of _ 1]) (simp add: outputs_num_of_def)
  have n: "nths (produced ?op) {i. i < length ?ns \<and> ?ns ! i \<noteq> []}
             = [TupleGetItem (Call (Op ''Split'') [] []) 0, TupleGetItem (Call (Op ''Split'') [] []) 2]"
    by (simp add: produced_def nths_conv_filter upt_rec numeral_nat nth_Cons')
  from reconcile_drops_unnamed[OF len k bound some] show ?thesis
    unfolding n Let_def by simp
qed

text \<open>
  The other two situations of the reconciliation. A non-empty name declared at a position
  the operator has no output for is an \<open>IndexError\<close>. When the operator produced one
  output, or every position below \<open>k\<close> has a non-empty name, nothing is dropped (empty
  names included) and the declared list must have exactly \<open>k\<close> entries.
\<close>

lemma reconcile_index_error:
  assumes k: "1 < outputs_num_of op"
    and out: "\<exists>i < length ns. ns ! i \<noteq> [] \<and> outputs_num_of op \<le> i"
  shows "reconcile op ns = Inl IndexError"
proof -
  have "for_each mark_valid (enumerate 0 ns) (replicate (outputs_num_of op) False) = Inl IndexError"
    using out by (intro mark_valid_fail) simp
  then show ?thesis unfolding reconcile_def Let_def using k by (simp add: bind_err_def)
qed

lemma reconcile_nothing_dropped:
  assumes "outputs_num_of op \<le> 1 \<or>
           (\<forall>i < outputs_num_of op. i < length ns \<and> ns ! i \<noteq> []) \<and>
           (\<forall>i < length ns. ns ! i \<noteq> [] \<longrightarrow> i < outputs_num_of op)"
  shows "reconcile op ns =
           (if length ns = outputs_num_of op then Inr (op, outputs_num_of op, ns)
            else Inl (AssertionError ''Number of output mismatch''))"
proof (cases "outputs_num_of op \<le> 1")
  case True
  then show ?thesis unfolding reconcile_def Let_def by (simp add: bind_err_def)
next
  case False
  let ?k = "outputs_num_of op"
  let ?mask = "map (\<lambda>j. j < length ns \<and> ns ! j \<noteq> []) [0 ..< ?k]"
  from False assms have all: "\<forall>i < ?k. i < length ns \<and> ns ! i \<noteq> []"
    and bound: "\<forall>i < length ns. ns ! i \<noteq> [] \<longrightarrow> i < ?k" by auto
  have m: "for_each mark_valid (enumerate 0 ns) (replicate ?k False) = Inr ?mask"
    using bound by (intro valid_mask) (auto simp: not_le[symmetric])
  have a: "list_all id ?mask" using all unfolding mask_all by blast
  show ?thesis unfolding reconcile_def Let_def using False
    by (simp only: m bind_err_def sum.case a not_True_eq_False if_False) simp
qed

text \<open>
  C3 (counterexample). An operator with three outputs and the declared names
  \<open>["y", ""]\<close>: dropping the values at the positions declared empty leaves two produced
  values for one non-empty name, and the reconciliation succeeds with the single output
  at position 0. An operator with two outputs and the declared names \<open>["a", "b", ""]\<close>:
  dropping the values at the positions declared empty leaves two values for two non-empty
  names, and the reconciliation fails with the assertion on the number of outputs.
\<close>

theorem reconcile_keeps_surplus_positions:
  "length (nths (produced (TupleWrapper (Call (Op ''Split'') [] []) 3))
                {i. \<not> (i < length [''y'', []] \<and> [''y'', []] ! i = [])})
     \<noteq> length (filter (\<lambda>n. n \<noteq> []) [''y'', []])
   \<and> reconcile (TupleWrapper (Call (Op ''Split'') [] []) 3) [''y'', []]
       = Inr (Expr (TupleGetItem (Call (Op ''Split'') [] []) 0), 1, [''y''])
   \<and> length (nths (produced (TupleWrapper (Call (Op ''Split'') [] []) 2))
                {i. \<not> (i < length [''a'', ''b'', []] \<and> [''a'', ''b'', []] ! i = [])})
       = length (filter (\<lambda>n. n \<noteq> []) [''a'', ''b'', []])
   \<and> reconcile (TupleWrapper (Call (Op ''Split'') [] []) 2) [''a'', ''b'', []]
       = Inl (AssertionError ''Number of output mismatch'')"
proof -
  have r1: "reconcile (TupleWrapper (Call (Op ''Split'') [] []) 3) [''y'', []]
       = Inr (Expr (TupleGetItem (Call (Op ''Split'') [] []) 0), 1, [''y''])"
    by code_simp
  have r2: "reconcile (TupleWrapper (Call (Op ''Split'') [] []) 2) [''a'', ''b'', []]
       = Inl (AssertionError ''Number of output mismatch'')"
    by code_simp
  have n1: "length (nths (produced (TupleWrapper (Call (Op ''Split'') [] []) 3))
                {i. \<not> (i < length [''y'', []] \<and> [''y'', []] ! i = [])}) = 2"
    by (simp add: produced_def nths_conv_filter upt_rec numeral_nat nth_Cons')
  have n2: "length (nths (produced (TupleWrapper (Call (Op ''Split'') [] []) 2))
                {i. \<not> (i < length [''a'', ''b'', []] \<and> [''a'', ''b'', []] ! i = [])}) = 2"
    by (simp add: produced_def nths_conv_filter upt_rec numeral_nat nth_Cons')
  show ?thesis unfolding r1 r2 n1 n2 by simp
qed

section \<open>Properties of the scan for unsupported operators\<close>

lemma set_unsupported_ops:
  "set (unsupported_ops convert_map ns)
     = {n_op_type n | n. n \<in> set ns \<and> dict_get convert_map (n_op_type n) = None
                          \<and> n_op_type n \<noteq> ''Constant''}"
  by (auto simp: unsupported_ops_def identity_list_def)

text \<open>
  C4. Once the initializers and the declared inputs are registered, the shapes checked
  and the table of converters resolved, a graph with at least one node whose operator
  is not in the table (and is not \<open>Constant\<close>) makes the import fail with the one error
  \<open>OpNotImplemented\<close> that carries the set of all such operator names of the graph. The
  result does not depend on any converter: no node is converted.
\<close>

theorem unsupported_operators_reported_together:
  assumes "for_each (load_initializer env) (g_initializer graph)
             (ctr, self0\<lparr> gp_opset := Some opset \<rparr>) = Inr st1"
    and "for_each (load_input env) (g_input graph) st1 = Inr (ctr2, self2)"
    and "check_shapes self2 = Inr ()"
    and "get_convert_map env opset = Inr convert_map"
    and "\<exists>n \<in> set (g_node graph).
           dict_get convert_map (n_op_type n) = None \<and> n_op_type n \<noteq> ''Constant''"
  shows "from_onnx_graph env ctr self0 graph opset get_output_expr
           = Inl (OpNotImplemented
                    {n_op_type n | n. n \<in> set (g_node graph)
                         \<and> dict_get convert_map (n_op_type n) = None
                         \<and> n_op_type n \<noteq> ''Constant''})"
proof -
  let ?S = "{n_op_type n | n. n \<in> set (g_node graph)
                         \<and> dict_get convert_map (n_op_type n) = None
                         \<and> n_op_type n \<noteq> ''Constant''}"
  from assms(5) obtain n where "n \<in> set (g_node graph)"
    "dict_get convert_map (n_op_type n) = None" "n_op_type n \<noteq> ''Constant''" by blast
  then have "n_op_type n \<in> ?S" by blast
  then have "n_op_type n \<in> set (unsupported_ops convert_map (g_node graph))"
    unfolding set_unsupported_ops .
  then have ne: "unsupported_ops convert_map (g_node graph) \<noteq> []" by auto
  have cu: "check_unsupported convert_map (g_node graph) = Inl (OpNotImplemented ?S)"
    using ne unfolding check_unsupported_def set_unsupported_ops by simp
  show ?thesis
    apply (subst from_onnx_graph.simps)
    apply (simp only: assms(1) assms(2) assms(3) assms(4) cu bind_err_def sum.case prod.case)
    done
qed

lemma example_convert_map:
  "get_convert_map example_env 11
     = Inr [(''Identity'', Plain (\<lambda>inputs attr params.
                       case inputs of [Some x] \<Rightarrow> Inr (Expr (Call (Op ''copy'') [x] []))
                                    | _ \<Rightarrow> Inl (AssertionError []))),
            (''Loop'', Loop_impl_v11), (''If'', If_impl_v1)]"
  by (simp add: get_convert_map_def example_env_def get_converter_def py_max_def
        list_getitem_def bind_err_def)

theorem unsupported_operators_reported_together_witness:
  "from_onnx_graph example_env 0 (enter True (GraphProto_init [] (DtypeStr ''float32'') False))
       two_unsupported 11 False
     = Inl (OpNotImplemented {''Foo'', ''Bar''})"
proof -
  let ?self0 = "enter True (GraphProto_init [] (DtypeStr ''float32'') False)"
  let ?x = "Var ''x'' (Some (TensorType [Dim 2] (Some ''float32''))) 0"
  let ?self2 = "?self0\<lparr> gp_opset := Some 11, gp_num_input := 1, gp_input_names := [''x''],
                          gp_nodes := [(''x'', ?x)], gp_inputs := [(''x'', ?x)] \<rparr>"
  have h1: "for_each (load_initializer example_env) (g_initializer two_unsupported)
              (0, ?self0\<lparr> gp_opset := Some 11 \<rparr>) = Inr (0, ?self0\<lparr> gp_opset := Some 11 \<rparr>)"
    by (simp add: two_unsupported_def)
  have h2: "for_each (load_input example_env) (g_input two_unsupported)
              (0, ?self0\<lparr> gp_opset := Some 11 \<rparr>) = Inr (1, ?self2)"
    by (simp add: two_unsupported_def load_input_def get_info_def example_env_def bind_err_def
          enter_def GraphProto_init_def dict_get_def dict_set_def new_var_def Let_def)
  have h3: "check_shapes ?self2 = Inr ()"
    by (simp add: check_shapes_def enter_def GraphProto_init_def)
  have h5: "\<exists>n \<in> set (g_node two_unsupported).
              dict_get [(''Identity'', Plain (\<lambda>inputs attr params.
                       case inputs of [Some x] \<Rightarrow> Inr (Expr (Call (Op ''copy'') [x] []))
                                    | _ \<Rightarrow> Inl (AssertionError []))),
                        (''Loop'', Loop_impl_v11), (''If'', If_impl_v1)] (n_op_type n) = None
              \<and> n_op_type n \<noteq> ''Constant''"
    by (simp add: two_unsupported_def dict_get_def)
  have s: "{n_op_type n | n. n \<in> set (g_node two_unsupported)
              \<and> dict_get [(''Identity'', Plain (\<lambda>inputs attr params.
                       case inputs of [Some x] \<Rightarrow> Inr (Expr (Call (Op ''copy'') [x] []))
                                    | _ \<Rightarrow> Inl (AssertionError []))),
                        (''Loop'', Loop_impl_v11), (''If'', If_impl_v1)] (n_op_type n) = None
              \<and> n_op_type n \<noteq> ''Constant''} = {''Foo'', ''Bar''}"
    unfolding set_unsupported_ops[symmetric]
    by (auto simp: two_unsupported_def unsupported_ops_def dict_get_def identity_list_def)
  from unsupported_operators_reported_together[OF h1 h2 h3 example_convert_map h5, of False]
  show ?thesis unfolding s .
qed

section \<open>Properties of the declared outputs\<close>

lemma fix_outputs_cases:
  "(1 < length outputs \<longrightarrow> fix_outputs ''Dropout'' outputs = butlast outputs)
   \<and> (length outputs = 1 \<longrightarrow> fix_outputs ''Dropout'' outputs = outputs)
   \<and> (op_name \<noteq> ''Dropout'' \<longrightarrow> fix_outputs op_name outputs = outputs)"
  by (simp add: fix_outputs_def)

lemma dict_get_dict_set_other: "k \<noteq> k' \<Longrightarrow> dict_get (dict_set d k' v) k = dict_get d k"
  by (simp add: dict_get_def dict_set_def update_conv')

lemma reconcile_names:
  assumes "reconcile op ns = Inr (op', outputs_num, names)"
  shows "set names \<subseteq> set ns"
proof -
  have "names = ns \<or> names = filter (\<lambda>output. output \<noteq> []) ns"
    using assms unfolding reconcile_def Let_def
    by (auto simp: bind_err_def split: if_splits sum.splits)
  then show ?thesis by auto
qed

lemma for_each_bind_frame:
  assumes "for_each (\<lambda>(k, i) d. bind_err (op_getitem op i) (\<lambda>e. Inr (dict_set d k e))) kis nds
             = Inr nds'"
    and "k \<notin> fst ` set kis"
  shows "dict_get nds' k = dict_get nds k"
  using assms
proof (induction kis arbitrary: nds)
  case Nil
  then show ?case by simp
next
  case (Cons ki kis)
  obtain k' i where ki: "ki = (k', i)" by (cases ki)
  from Cons.prems(1) obtain e where e: "op_getitem op i = Inr e"
    and rest: "for_each (\<lambda>(k, i) d. bind_err (op_getitem op i) (\<lambda>e. Inr (dict_set d k e))) kis
                 (dict_set nds k' e) = Inr nds'"
    unfolding ki by (auto simp: bind_err_def split: sum.splits)
  have "dict_get nds' k = dict_get (dict_set nds k' e) k"
    using Cons.IH[OF rest] Cons.prems(2) by simp
  also have "\<dots> = dict_get nds k"
    using Cons.prems(2) unfolding ki by (simp add: dict_get_dict_set_other)
  finally show ?case .
qed

lemma bind_outputs_frame:
  assumes "bind_outputs nds op outputs_num names = Inr nds'"
    and "k \<notin> set names"
  shows "dict_get nds' k = dict_get nds k"
proof (cases "outputs_num = 1")
  case True
  with assms(1) obtain e k' where "nds' = dict_set nds k' e" "k' \<in> set names"
    by (cases names)
       (auto simp: bind_outputs_def list_getitem_def bind_err_def split: op_result.splits if_splits)
  then have "nds' = dict_set nds k' e" "k \<noteq> k'" using assms(2) by auto
  then show ?thesis by (simp add: dict_get_dict_set_other)
next
  case False
  with assms(1) have
    "for_each (\<lambda>(k, i) d. bind_err (op_getitem op i) (\<lambda>e. Inr (dict_set d k e)))
       (zip names [0 ..< length names]) nds = Inr nds'"
    by (simp add: bind_outputs_def)
  moreover have "k \<notin> fst ` set (zip names [0 ..< length names])"
    using assms(2) by (auto dest: set_zip_leftD)
  ultimately show ?thesis by (rule for_each_bind_frame)
qed

lemma convert_nodes_single:
  assumes "parse_attr (n_attribute node) = Inr attr0"
    and "node_inputs self (n_input node) = Inr inputs"
    and "convert_operator env ctr self (n_op_type node) inputs
           (dict_set attr0 ''tvm_custom''
              (ACustom (n_name node) (length (fix_outputs (n_op_type node) (n_output node)))))
           opset = Inr (op0, self1, ctr1)"
  shows "convert_nodes env ctr self opset [node] =
           bind_err (fold_op env op0) (\<lambda>op.
           bind_err (reconcile op (fix_outputs (n_op_type node) (n_output node)))
             (\<lambda>(op', outputs_num, node_output).
           bind_err (bind_outputs (gp_nodes self1) op' outputs_num node_output) (\<lambda>nds.
             Inr (ctr1, self1\<lparr> gp_nodes := nds \<rparr>))))"
  apply (subst convert_nodes.simps)
  apply (simp only: assms bind_err_def sum.case prod.case convert_nodes.simps(1))
  done

lemma reconcile_expr: "reconcile (Expr e) ns =
    (if length ns = 1 then Inr (Expr e, 1, ns) else Inl (AssertionError ''Number of output mismatch''))"
  by (simp add: reconcile_def outputs_num_of_def bind_err_def)

text \<open>
  C10. The conversion of one node, once its attributes are parsed, its inputs looked up
  and its converter has returned. For a \<open>Dropout\<close> node that declares more than one
  output, the last declared name is removed before the reconciliation: whenever the
  conversion of the node succeeds, the scope's table holds for that name what it held
  before (the name occurring only once among the declared outputs), so the mask is not
  bound; with the outputs \<open>[y]\<close> or \<open>[y, mask]\<close> and a converter returning one
  expression, the conversion succeeds and binds \<open>y\<close> alone. A node of another
  operator keeps its declared outputs: with more than one declared name and a converter
  returning one expression the assertion on the number of outputs fails, and with two
  non-empty names and a converter returning two outputs both names are bound.
\<close>

theorem dropout_mask_never_bound:
  assumes attr: "parse_attr (n_attribute node) = Inr attr0"
    and ins: "node_inputs self (n_input node) = Inr inputs"
    and conv: "convert_operator env ctr self (n_op_type node) inputs
                 (dict_set attr0 ''tvm_custom''
                    (ACustom (n_name node) (length (fix_outputs (n_op_type node) (n_output node)))))
                 opset = Inr (op0, self1, ctr1)"
  shows "(n_op_type node = ''Dropout'' \<and> 1 < length (n_output node)
            \<and> last (n_output node) \<notin> set (butlast (n_output node))
            \<and> convert_nodes env ctr self opset [node] = Inr (ctr', self') \<longrightarrow>
            dict_get (gp_nodes self') (last (n_output node))
              = dict_get (gp_nodes self1) (last (n_output node)))
       \<and> (n_op_type node = ''Dropout''
            \<and> (n_output node = [y] \<or> n_output node = [y, mask_name]) \<and> op0 = Expr e \<longrightarrow>
            convert_nodes env ctr self opset [node]
              = Inr (ctr1, self1\<lparr> gp_nodes := dict_set (gp_nodes self1) y (fold_constant env e) \<rparr>))
       \<and> (n_op_type node \<noteq> ''Dropout'' \<and> 1 < length (n_output node) \<and> op0 = Expr e \<longrightarrow>
            convert_nodes env ctr self opset [node]
              = Inl (AssertionError ''Number of output mismatch''))
       \<and> (n_op_type node \<noteq> ''Dropout'' \<and> n_output node = [y, mask_name]
            \<and> y \<noteq> [] \<and> mask_name \<noteq> [] \<and> op0 = TupleWrapper t 2 \<longrightarrow>
            convert_nodes env ctr self opset [node]
              = Inr (ctr1, self1\<lparr> gp_nodes :=
                       dict_set (dict_set (gp_nodes self1) y (TupleGetItem (fold_constant env t) 0))
                         mask_name (TupleGetItem (fold_constant env t) 1) \<rparr>))"
proof (intro conjI impI)
  assume a: "n_op_type node = ''Dropout'' \<and> 1 < length (n_output node)
             \<and> last (n_output node) \<notin> set (butlast (n_output node))
             \<and> convert_nodes env ctr self opset [node] = Inr (ctr', self')"
  then have f: "fix_outputs (n_op_type node) (n_output node) = butlast (n_output node)"
    by (simp add: fix_outputs_def)
  from a have "bind_err (fold_op env op0) (\<lambda>op.
           bind_err (reconcile op (butlast (n_output node)))
             (\<lambda>(op', outputs_num, node_output).
           bind_err (bind_outputs (gp_nodes self1) op' outputs_num node_output) (\<lambda>nds.
             Inr (ctr1, self1\<lparr> gp_nodes := nds \<rparr>)))) = Inr (ctr', self')"
    unfolding convert_nodes_single[OF attr ins conv] f by simp
  then obtain op op' outputs_num names nds where
      r: "reconcile op (butlast (n_output node)) = Inr (op', outputs_num, names)"
      and b: "bind_outputs (gp_nodes self1) op' outputs_num names = Inr nds"
      and s: "self' = self1\<lparr> gp_nodes := nds \<rparr>"
    by (auto simp: bind_err_def split: sum.splits)
  have "last (n_output node) \<notin> set names"
    using reconcile_names[OF r] a by auto
  from bind_outputs_frame[OF b this] s
  show "dict_get (gp_nodes self') (last (n_output node))
          = dict_get (gp_nodes self1) (last (n_output node))" by simp
next
  assume a: "n_op_type node = ''Dropout''
             \<and> (n_output node = [y] \<or> n_output node = [y, mask_name]) \<and> op0 = Expr e"
  then have f: "fix_outputs (n_op_type node) (n_output node) = [y]"
    by (auto simp: fix_outputs_def)
  show "convert_nodes env ctr self opset [node]
          = Inr (ctr1, self1\<lparr> gp_nodes := dict_set (gp_nodes self1) y (fold_constant env e) \<rparr>)"
    unfolding convert_nodes_single[OF attr ins conv] f using a
    by (simp add: fold_op_def outputs_num_of_def reconcile_expr bind_outputs_def
          list_getitem_def bind_err_def)
next
  assume a: "n_op_type node \<noteq> ''Dropout'' \<and> 1 < length (n_output node) \<and> op0 = Expr e"
  then have f: "fix_outputs (n_op_type node) (n_output node) = n_output node"
    by (simp add: fix_outputs_def)
  show "convert_nodes env ctr self opset [node] = Inl (AssertionError ''Number of output mismatch'')"
    unfolding convert_nodes_single[OF attr ins conv] f using a
    by (simp add: fold_op_def outputs_num_of_def reconcile_expr bind_err_def)
next
  assume a: "n_op_type node \<noteq> ''Dropout'' \<and> n_output node = [y, mask_name]
             \<and> y \<noteq> [] \<and> mask_name \<noteq> [] \<and> op0 = TupleWrapper t 2"
  then have f: "fix_outputs (n_op_type node) (n_output node) = [y, mask_name]"
    by (simp add: fix_outputs_def)
  have r: "reconcile (TupleWrapper (fold_constant env t) 2) [y, mask_name]
             = Inr (TupleWrapper (fold_constant env t) 2, 2, [y, mask_name])"
    using a reconcile_nothing_dropped[of "TupleWrapper (fold_constant env t) 2" "[y, mask_name]"]
    by (simp add: outputs_num_of_def less_Suc_eq numeral_2_eq_2 nth_Cons')
  show "convert_nodes env ctr self opset [node]
          = Inr (ctr1, self1\<lparr> gp_nodes :=
                   dict_set (dict_set (gp_nodes self1) y (TupleGetItem (fold_constant env t) 0))
                     mask_name (TupleGetItem (fold_constant env t) 1) \<rparr>)"
    unfolding convert_nodes_single[OF attr ins conv] f using a
    by (simp add: fold_op_def outputs_num_of_def r[unfolded numeral_2_eq_2] bind_outputs_def
          op_getitem_def tw_getitem_def bind_err_def upt_rec numeral_2_eq_2)
qed

lemma dropout_convert_operator:
  "convert_operator dropout_env 1 dropout_scope op_name
       [Some (Var ''x'' (Some (TensorType [Dim 2] (Some ''float32''))) 0)] attr 11
     = (if op_name = ''Dropout''
        then Inr (Expr (TupleGetItem (Call (Op ''nn.dropout'')
                    [Var ''x'' (Some (TensorType [Dim 2] (Some ''float32''))) 0] []) 0),
                  dropout_scope, 1)
        else if op_name = ''Identity''
        then Inr (Expr (Call (Op ''copy'')
                    [Var ''x'' (Some (TensorType [Dim 2] (Some ''float32''))) 0] []),
                  dropout_scope, 1)
        else convert_operator dropout_env 1 dropout_scope op_name
               [Some (Var ''x'' (Some (TensorType [Dim 2] (Some ''float32''))) 0)] attr 11)"
proof -
  have cm: "get_convert_map dropout_env 11
     = Inr [(''Dropout'', Plain (\<lambda>inputs attr params.
              case inputs of
                Some x # rest \<Rightarrow> Inr (Expr (TupleGetItem (Call (Op ''nn.dropout'') [x] []) 0))
              | _ \<Rightarrow> Inl (AssertionError []))),
            (''Identity'', Plain (\<lambda>inputs attr params.
                       case inputs of [Some x] \<Rightarrow> Inr (Expr (Call (Op ''copy'') [x] []))
                                    | _ \<Rightarrow> Inl (AssertionError []))),
            (''Loop'', Loop_impl_v11), (''If'', If_impl_v1)]"
    by (simp add: get_convert_map_def dropout_env_def example_env_def get_converter_def py_max_def
          list_getitem_def bind_err_def)
  show ?thesis
    apply (cases "op_name = ''Dropout''")
     apply (subst convert_operator.simps)
     apply (simp add: cm bind_err_def identity_list_def dict_get_def)
    apply (cases "op_name = ''Identity''")
     apply (subst convert_operator.simps)
     apply (simp add: cm bind_err_def identity_list_def dict_get_def)
    apply simp
    done
qed

theorem dropout_mask_never_bound_witness:
  "convert_nodes dropout_env 1 dropout_scope 11
       [NodeProto ''Dropout'' [''x''] [''y'', ''mask''] [] ''drop'']
     = Inr (1, dropout_scope\<lparr> gp_nodes :=
              [(''x'', Var ''x'' (Some (TensorType [Dim 2] (Some ''float32''))) 0),
               (''y'', TupleGetItem (Call (Op ''nn.dropout'')
                         [Var ''x'' (Some (TensorType [Dim 2] (Some ''float32''))) 0] []) 0)] \<rparr>)
   \<and> dict_get [(''x'', Var ''x'' (Some (TensorType [Dim 2] (Some ''float32''))) 0),
               (''y'', TupleGetItem (Call (Op ''nn.dropout'')
                         [Var ''x'' (Some (TensorType [Dim 2] (Some ''float32''))) 0] []) 0)]
         ''mask'' = None
   \<and> convert_nodes dropout_env 1 dropout_scope 11
       [NodeProto ''Identity'' [''x''] [''y'', ''mask''] [] ''copy'']
     = Inl (AssertionError ''Number of output mismatch'')"
proof -
  let ?x = "Var ''x'' (Some (TensorType [Dim 2] (Some ''float32''))) 0"
  let ?d = "NodeProto ''Dropout'' [''x''] [''y'', ''mask''] [] ''drop''"
  let ?i = "NodeProto ''Identity'' [''x''] [''y'', ''mask''] [] ''copy''"
  let ?e = "TupleGetItem (Call (Op ''nn.dropout'') [?x] []) 0"
  have attr_d: "parse_attr (n_attribute ?d) = Inr []" by (simp add: parse_attr_def)
  have attr_i: "parse_attr (n_attribute ?i) = Inr []" by (simp add: parse_attr_def)
  have ins_d: "node_inputs dropout_scope (n_input ?d) = Inr [Some ?x]"
    by (simp add: node_inputs_def dropout_scope_def dict_item_def dict_get_def bind_err_def
          GraphProto_init_def enter_def)
  have ins_i: "node_inputs dropout_scope (n_input ?i) = Inr [Some ?x]"
    by (simp add: node_inputs_def dropout_scope_def dict_item_def dict_get_def bind_err_def
          GraphProto_init_def enter_def)
  have conv_d: "convert_operator dropout_env 1 dropout_scope (n_op_type ?d) [Some ?x]
                  (dict_set [] ''tvm_custom''
                     (ACustom (n_name ?d) (length (fix_outputs (n_op_type ?d) (n_output ?d))))) 11
                = Inr (Expr ?e, dropout_scope, 1)"
    by (subst dropout_convert_operator) simp
  have conv_i: "convert_operator dropout_env 1 dropout_scope (n_op_type ?i) [Some ?x]
                  (dict_set [] ''tvm_custom''
                     (ACustom (n_name ?i) (length (fix_outputs (n_op_type ?i) (n_output ?i))))) 11
                = Inr (Expr (Call (Op ''copy'') [?x] []), dropout_scope, 1)"
    by (subst dropout_convert_operator) simp
  have fold: "fold_constant dropout_env = (\<lambda>e. e)"
    by (simp add: dropout_env_def example_env_def)
  note d = dropout_mask_never_bound[OF attr_d ins_d conv_d, of _ _ "''y''" "''mask''" ?e]
  note i = dropout_mask_never_bound[OF attr_i ins_i conv_i, of _ _ _ _ "Call (Op ''copy'') [?x] []"]
  have r1: "convert_nodes dropout_env 1 dropout_scope 11 [?d]
     = Inr (1, dropout_scope\<lparr> gp_nodes := [(''x'', ?x), (''y'', ?e)] \<rparr>)"
    using d by (simp add: fold dict_set_def dropout_scope_def GraphProto_init_def enter_def)
  have r2: "dict_get [(''x'', ?x), (''y'', ?e)] ''mask'' = None"
    using d[of 1 "dropout_scope\<lparr> gp_nodes := [(''x'', ?x), (''y'', ?e)] \<rparr>"] r1
    by (simp add: dict_get_def dropout_scope_def GraphProto_init_def enter_def)
  have r3: "convert_nodes dropout_env 1 dropout_scope 11 [?i]
     = Inl (AssertionError ''Number of output mismatch'')"
    using i by simp
  show ?thesis using r1 r2 r3 by simp
qed

section \<open>Properties of the assembled function\<close>











section \<open>Properties of the scopes of control-flow bodies\<close>











text \<open>The \<open>Loop\<close> converter returns the enclosing scope merged in the same way.\<close>

lemma Loop_impl_scope:
  assumes "Loop_impl env ctr graph_scope inputs attr = Inr (res, scope', ctr')"
  shows "\<exists>subgraph_scope fvs. scope' = merge_scope graph_scope subgraph_scope fvs"
  using assms
  apply (subst (asm) Loop_impl.simps)
  apply (auto simp: bind_err_def Let_def split: sum.splits prod.splits if_splits
          simp del: from_onnx_graph.simps)
  done


section \<open>Properties of the whole import\<close>

text \<open>
  C8. A model whose graph has one initializer, no declared input, no node, and one
  output naming the initializer, imported without shape overrides; the name of the
  initializer is not blank, the tensor decodes to \<open>array\<close>, and the table of converters
  resolves at the opset in force. With frozen parameters the function has no parameter,
  its body is the constant \<open>array\<close> and the table of parameters is empty. Otherwise the
  function has the one parameter named after the initializer, its body is that
  parameter, and the table of parameters binds the name to \<open>array\<close>.
\<close>

theorem one_initializer_round_trip:
  assumes name: "\<not> blank (tp_name t)"
    and arr: "parse_array env t = Inr array"
    and out: "vi_name out = tp_name t"
    and cm: "get_convert_map env
               (case opset of None \<Rightarrow> (case opsets of [] \<Rightarrow> 1 | v # vs \<Rightarrow> v) | Some v \<Rightarrow> v)
             = Inr convert_map"
  shows "from_onnx env (ModelProto (Graph [] [t] [] [out]) opsets) [] dt opset True
           = Inr (Module (IRModule (Function [] (Constant array))) [])
       \<and> from_onnx env (ModelProto (Graph [] [t] [] [out]) opsets) [] dt opset False
           = Inr (Module
                    (IRModule
                       (Function
                          [Var (tp_name t)
                             (Some (TensorType (map Dim (nd_shape array)) (Some (nd_dtype array)))) 0]
                          (Var (tp_name t)
                             (Some (TensorType (map Dim (nd_shape array)) (Some (nd_dtype array)))) 0)))
                    [(tp_name t, array)])"
proof
  let ?opset = "case opset of None \<Rightarrow> (case opsets of [] \<Rightarrow> 1 | v # vs \<Rightarrow> v) | Some v \<Rightarrow> v"
  let ?g = "Graph [] [t] [] [out]"
  have frozen: "from_onnx_graph env 0 (enter True (GraphProto_init [] dt True)) ?g ?opset False
          = Inr (Module (IRModule (Function [] (Constant array))) [],
                 (enter True (GraphProto_init [] dt True))
                   \<lparr> gp_nodes := [(tp_name t, Constant array)],
                     gp_opset := Some ?opset \<rparr>, 0)"
    apply (subst from_onnx_graph.simps)
    apply (simp add: cm name arr out load_initializer_def bind_err_def enter_def GraphProto_init_def
        Let_def dict_set_def check_shapes_def check_unsupported_def unsupported_ops_def
        graph_outputs_def dict_item_def dict_get_def assemble_def free_vars_def)
    done
  show "from_onnx env (ModelProto ?g opsets) [] dt opset True
           = Inr (Module (IRModule (Function [] (Constant array))) [])"
    unfolding from_onnx_def Let_def onnx_model.sel frozen by (simp add: bind_err_def)
next
  let ?opset = "case opset of None \<Rightarrow> (case opsets of [] \<Rightarrow> 1 | v # vs \<Rightarrow> v) | Some v \<Rightarrow> v"
  let ?g = "Graph [] [t] [] [out]"
  let ?v = "Var (tp_name t)
              (Some (TensorType (map Dim (nd_shape array)) (Some (nd_dtype array)))) 0"
  have kept: "from_onnx_graph env 0 (enter True (GraphProto_init [] dt False)) ?g ?opset False
          = Inr (Module (IRModule (Function [?v] ?v)) [(tp_name t, array)],
                 (enter True (GraphProto_init [] dt False))
                   \<lparr> gp_nodes := [(tp_name t, ?v)],
                     gp_params := [(tp_name t, array)],
                     gp_inputs := [(tp_name t, ?v)],
                     gp_opset := Some ?opset \<rparr>, Suc 0)"
    apply (subst from_onnx_graph.simps)
    apply (simp add: cm name arr out load_initializer_def bind_err_def enter_def GraphProto_init_def
        Let_def dict_set_def check_shapes_def check_unsupported_def unsupported_ops_def
        graph_outputs_def dict_item_def dict_get_def assemble_def free_vars_def new_var_def
        name_of_var_def)
    done
  show "from_onnx env (ModelProto ?g opsets) [] dt opset False
           = Inr (Module (IRModule (Function [?v] ?v)) [(tp_name t, array)])"
    unfolding from_onnx_def Let_def onnx_model.sel kept by (simp add: bind_err_def)
qed

theorem one_initializer_round_trip_witness:
  "from_onnx example_env
       (ModelProto (Graph [] [TensorProto ''w'' [2] 1 [3, 4]] [] [ValueInfo ''w'' [([], 2)] 1]) [11])
       [] (DtypeStr ''float32'') None True
     = Inr (Module (IRModule (Function [] (Constant (NDArray [2] ''float32'' [3, 4])))) [])
   \<and> from_onnx example_env
       (ModelProto (Graph [] [TensorProto ''w'' [2] 1 [3, 4]] [] [ValueInfo ''w'' [([], 2)] 1]) [11])
       [] (DtypeStr ''float32'') None False
     = Inr (Module
              (IRModule
                 (Function [Var ''w'' (Some (TensorType [Dim 2] (Some ''float32''))) 0]
                    (Var ''w'' (Some (TensorType [Dim 2] (Some ''float32''))) 0)))
              [(''w'', NDArray [2] ''float32'' [3, 4])])"
proof -
  have name: "\<not> blank (tp_name (TensorProto ''w'' [2] 1 [3, 4]))"
    by (simp add: blank_def is_space_def)
  have out: "vi_name (ValueInfo ''w'' [([], 2)] 1) = tp_name (TensorProto ''w'' [2] 1 [3, 4])"
    by simp
  have cm: "get_convert_map example_env
              (case None of None \<Rightarrow> (case [11] of [] \<Rightarrow> 1 | v # vs \<Rightarrow> v) | Some v \<Rightarrow> v)
            = Inr [(''Identity'', Plain (\<lambda>inputs attr params.
                       case inputs of [Some x] \<Rightarrow> Inr (Expr (Call (Op ''copy'') [x] []))
                                    | _ \<Rightarrow> Inl (AssertionError []))),
                   (''Loop'', Loop_impl_v11), (''If'', If_impl_v1)]"
    using example_convert_map by simp
  have pa: "parse_array example_env (TensorProto ''w'' [2] 1 [3, 4])
              = Inr (NDArray [2] ''float32'' [3, 4])"
    by (simp add: parse_array_def example_env_def reshape_def bind_err_def)
  from one_initializer_round_trip[OF name pa out cm, of "DtypeStr ''float32''"]
  show ?thesis by simp
qed

section \<open>Properties of the registry\<close>

text \<open>
  C1 (failing input). The class registers the single version 11 and the requested
  opset is 9, below every registered version. The sorted list is \<open>[9, 11]\<close>, the last
  occurrence of 9 is index 0, and \<open>versions[0 - 1]\<close> wraps to the last entry: the
  resolution returns the version-11 method instead of raising.
\<close>

theorem get_converter_below_first_version:
  "get_converter [(11::int, ''_impl_v11'')] 9 = Inr ''_impl_v11''"
  by code_simp
end
